theory Spec2Isabelle
  imports Complex_Main "HOL-Library.Sublist"
begin

section \<open>The telemetry gateway of server/routes.ts\<close>

text \<open>
  The embedding covers the WebSocket part of \<^verbatim>\<open>registerRoutes\<close>: the two process-wide
  collections \<^verbatim>\<open>deviceLatestData\<close> and \<^verbatim>\<open>connectedClients\<close>, the handlers installed
  in \<^verbatim>\<open>wss.on('connection', ...)\<close>, the helper \<^verbatim>\<open>broadcastToClients\<close> and the two
  REST routes under \<^verbatim>\<open>/api/temperature\<close> that read the registry and inject alerts.
  Every handler runs to completion on the single JavaScript thread, so a handler is a
  function from the world before it to the world after it.
\<close>

subsection \<open>JavaScript values\<close>

text \<open>
  The handler works on the untyped result of \<^verbatim>\<open>JSON.parse\<close>. \<open>JUndefined\<close> is what
  reading an absent property gives; the parser never produces it. Numbers are modelled
  by their real value: the handler only stores them, passes them on and tests them for
  truthiness, and \<^verbatim>\<open>NaN\<close> is not a JSON number.
\<close>

datatype jsval =
    JUndefined
  | JNull
  | JBool bool
  | JNum real
  | JStr string
  | JArr "jsval list"
  | JObj "(string \<times> jsval) list"

type_synonym conn = nat

text \<open>
  The exceptions that reach the \<^verbatim>\<open>catch\<close> blocks. \<open>SendError\<close> is the error that \<^verbatim>\<open>send\<close>
  of the \<^verbatim>\<open>ws\<close> library throws on a socket that is still connecting.
\<close>

datatype exn = SyntaxError | TypeError | RangeError | SendError conn

text \<open>
  \<^verbatim>\<open>message.key\<close> on a value that is neither \<^verbatim>\<open>null\<close> nor \<^verbatim>\<open>undefined\<close>, for the keys
  the handler reads (\<^verbatim>\<open>type\<close>, \<^verbatim>\<open>deviceId\<close>, \<^verbatim>\<open>ambientTemp\<close>, \<^verbatim>\<open>objectTemp\<close>,
  \<^verbatim>\<open>timestamp\<close>, \<^verbatim>\<open>deviceName\<close>): none of them is defined on a prototype, so an object
  gives its own property or \<^verbatim>\<open>undefined\<close>, and a string, number, boolean or array
  gives \<^verbatim>\<open>undefined\<close>.
\<close>

fun js_prop :: "jsval \<Rightarrow> string \<Rightarrow> jsval" where
  "js_prop (JObj kvs) k = (case map_of kvs k of None \<Rightarrow> JUndefined | Some v \<Rightarrow> v)"
| "js_prop _ k = JUndefined"

text \<open>Reading a property of \<^verbatim>\<open>null\<close> or \<^verbatim>\<open>undefined\<close> throws a TypeError.\<close>

fun nullish :: "jsval \<Rightarrow> bool" where
  "nullish JUndefined = True"
| "nullish JNull = True"
| "nullish _ = False"

text \<open>The left operand test of \<^verbatim>\<open>||\<close>.\<close>

fun truthy :: "jsval \<Rightarrow> bool" where
  "truthy JUndefined = False"
| "truthy JNull = False"
| "truthy (JBool b) = b"
| "truthy (JNum n) = (n \<noteq> 0)"
| "truthy (JStr s) = (s \<noteq> [])"
| "truthy (JArr xs) = True"
| "truthy (JObj kvs) = True"

text \<open>
  A template literal \<^verbatim>\<open>`${v}`\<close> converts \<open>v\<close> to a string, and the conversion can throw.
  For a parsed object it calls the inherited \<^verbatim>\<open>toString\<close>, unless the object has an own
  property of that name: a parsed value is never callable, \<^verbatim>\<open>valueOf\<close> gives back the
  object, and the conversion throws a TypeError. An array joins the conversions of its
  elements, from left to right, one call of \<^verbatim>\<open>join\<close> inside the other for nested arrays;
  the stack of the engine bounds the nesting, and an array nested deeper throws a
  RangeError. The first argument of \<open>toString_exn\<close> is the number of nested calls of
  \<^verbatim>\<open>join\<close> that the engine still has room for; \<open>first_exn\<close> picks the exception of the
  first conversion that throws.
\<close>

fun first_exn :: "exn option list \<Rightarrow> exn option" where
  "first_exn [] = None"
| "first_exn (Some x # rs) = Some x"
| "first_exn (None # rs) = first_exn rs"

fun toString_exn :: "nat \<Rightarrow> jsval \<Rightarrow> exn option" where
  "toString_exn fuel (JObj kvs) =
     (if map_of kvs ''toString'' \<noteq> None then Some TypeError else None)"
| "toString_exn 0 (JArr xs) = Some RangeError"
| "toString_exn (Suc n) (JArr xs) = first_exn (map (toString_exn n) xs)"
| "toString_exn fuel v = None"

text \<open>
  \<^verbatim>\<open>JSON.stringify\<close> descends into arrays and objects; \<open>js_depth\<close> is the number of
  containers around the innermost value.
\<close>

fun js_depth :: "jsval \<Rightarrow> nat" where
  "js_depth (JArr xs) = Suc (foldr max (map js_depth xs) 0)"
| "js_depth (JObj kvs) = Suc (foldr max (map (\<lambda>kv. js_depth (snd kv)) kvs) 0)"
| "js_depth v = 0"

subsection \<open>Map and Set\<close>

text \<open>
  A JavaScript \<^verbatim>\<open>Map\<close> keeps its entries in insertion order; \<^verbatim>\<open>set\<close> on a key that is
  present replaces the value in place. Keys are compared by value when they are
  primitive and by identity when they are objects. The key of the registry is
  \<^verbatim>\<open>message.deviceId\<close>, a part of a freshly parsed frame, so an object key is a new one
  every time and never meets an older entry.
\<close>

fun js_primitive :: "jsval \<Rightarrow> bool" where
  "js_primitive (JArr xs) = False"
| "js_primitive (JObj kvs) = False"
| "js_primitive _ = True"

fun Map_set :: "(jsval \<times> 'v) list \<Rightarrow> jsval \<Rightarrow> 'v \<Rightarrow> (jsval \<times> 'v) list" where
  "Map_set [] k v = [(k, v)]"
| "Map_set ((k', v') # m) k v =
     (if js_primitive k \<and> k' = k then (k', v) # m else (k', v') # Map_set m k v)"

definition Map_get :: "(jsval \<times> 'v) list \<Rightarrow> jsval \<Rightarrow> 'v option" where
  "Map_get m k = (if js_primitive k then map_of m k else None)"

definition Map_values :: "(jsval \<times> 'v) list \<Rightarrow> 'v list" where
  "Map_values m = map snd m"

text \<open>A \<^verbatim>\<open>Set\<close> of connections, in insertion order.\<close>

definition Set_add :: "conn list \<Rightarrow> conn \<Rightarrow> conn list" where
  "Set_add s c = (if c \<in> set s then s else s @ [c])"

definition Set_delete :: "conn list \<Rightarrow> conn \<Rightarrow> conn list" where
  "Set_delete s c = removeAll c s"

subsection \<open>The world\<close>

record DeviceData =
  deviceId :: jsval
  ambientTemp :: jsval
  objectTemp :: jsval
  timestamp :: jsval

text \<open>The three object literals that the server serializes.\<close>

datatype outmsg =
    TemperatureUpdate DeviceData real
  | HandshakeAck string real
  | Alert jsval jsval real

text \<open>
  The number of containers that \<^verbatim>\<open>JSON.stringify\<close> enters for each of them: the literal
  itself, the object \<^verbatim>\<open>data\<close> of a temperature update, and what the fields hold.
\<close>

fun msg_depth :: "outmsg \<Rightarrow> nat" where
  "msg_depth (TemperatureUpdate d t) =
     2 + foldr max [js_depth (deviceId d), js_depth (ambientTemp d),
                    js_depth (objectTemp d), js_depth (timestamp d)] 0"
| "msg_depth (HandshakeAck s t) = 1"
| "msg_depth (Alert d s t) = 1 + foldr max [js_depth d, js_depth s] 0"

text \<open>
  Console lines. An entry keeps the values that the line interpolates instead of the
  rendered text.
\<close>

datatype log_entry =
    LogNewConnection real
  | LogTemperature jsval jsval jsval
  | LogDB jsval jsval jsval
  | LogHandshake jsval jsval
  | LogParseError exn
  | LogDisconnected real
  | LogClientError string
  | LogAlertError exn

text \<open>
  The events that the libraries deliver to the server: the four events of a socket and
  a request to the alert route. By \<open>Transport c rs fl\<close> the \<^verbatim>\<open>ws\<close> library and the network
  change the socket object of \<open>c\<close> between two handlers: its \<^verbatim>\<open>readyState\<close> becomes \<open>rs\<close>,
  and \<open>fl\<close> says whether a write to the peer fails from now on.
\<close>

datatype event =
    Connection conn
  | Message conn string
  | Close conn
  | Error conn string
  | PostAlert jsval
  | Transport conn nat bool

text \<open>
  \<open>readyState\<close> and \<open>writeFails\<close> belong to the socket objects of the \<^verbatim>\<open>ws\<close> library: the
  server reads the first and never writes either. \<open>sent\<close> lists the messages that \<^verbatim>\<open>send\<close>
  has handed to an open socket, \<open>pending\<close> the events that the library has scheduled
  because of a failed write and not yet delivered, \<open>stringified\<close> the values that
  \<^verbatim>\<open>JSON.stringify\<close> has serialized, \<open>ticks\<close> the number of calls of \<^verbatim>\<open>Date.now\<close> so far, and
  \<open>clientId\<close> is the variable of that name in the closure of each connection.
\<close>

record world =
  deviceLatestData :: "(jsval \<times> DeviceData) list"
  connectedClients :: "conn list"
  clientId :: "conn \<Rightarrow> real"
  readyState :: "conn \<Rightarrow> nat"
  writeFails :: "conn \<Rightarrow> bool"
  sent :: "(conn \<times> string) list"
  pending :: "event list"
  stringified :: "outmsg list"
  console :: "log_entry list"
  ticks :: nat

text \<open>
  The engine and its built-ins: \<^verbatim>\<open>JSON.parse(data.toString())\<close> (\<open>None\<close> when it throws a
  SyntaxError), the text that \<^verbatim>\<open>JSON.stringify\<close> produces, the value of the \<open>n\<close>-th call
  of \<^verbatim>\<open>Date.now\<close>, and the two bounds that the stack of the engine puts on recursion:
  \<open>join_limit\<close> is the deepest nesting of arrays that a template literal converts, and
  \<open>stringify_limit\<close>, when the serializer of the engine recurses, is the number of
  containers it can enter below the fields of a message (\<open>None\<close> for a serializer that
  does not recurse).
\<close>

record env =
  JSON_parse :: "string \<Rightarrow> jsval option"
  JSON_text :: "outmsg \<Rightarrow> string"
  clock :: "nat \<Rightarrow> real"
  join_limit :: nat
  stringify_limit :: "nat option"

definition Date_now :: "env \<Rightarrow> world \<Rightarrow> real \<times> world" where
  "Date_now e w = (clock e (ticks w), w\<lparr>ticks := Suc (ticks w)\<rparr>)"

definition console_log :: "log_entry \<Rightarrow> world \<Rightarrow> world" where
  "console_log l w = w\<lparr>console := console w @ [l]\<rparr>"

text \<open>
  \<^verbatim>\<open>JSON.stringify\<close> of one of the three literals: a RangeError (\<open>None\<close>) when the value is
  nested deeper than the serializer can follow, the text otherwise. A message whose
  fields hold no array and no object is always serialized.
\<close>

definition JSON_stringify :: "env \<Rightarrow> outmsg \<Rightarrow> string option" where
  "JSON_stringify e m =
     (case stringify_limit e of
        None \<Rightarrow> Some (JSON_text e m)
      | Some l \<Rightarrow> if msg_depth m > 2 + l then None else Some (JSON_text e m))"

text \<open>
  \<^verbatim>\<open>send\<close> of the \<^verbatim>\<open>ws\<close> library, which is not part of the repository: it throws on a
  socket that is still connecting (\<^verbatim>\<open>readyState\<close> 0), hands the message to the socket
  when it is open (\<^verbatim>\<open>readyState\<close> 1) and returns, and returns without sending on a
  socket that is closing or closed. A write that fails does not make \<^verbatim>\<open>send\<close> throw: the
  library learns of it later and then emits the close event of the socket.
\<close>

definition ws_send :: "conn \<Rightarrow> string \<Rightarrow> world \<Rightarrow> exn option \<times> world" where
  "ws_send c s w =
     (if readyState w c = 0 then (Some (SendError c), w)
      else if readyState w c = 1 then
        (None, w\<lparr>sent := sent w @ [(c, s)],
                 pending := pending w @ (if writeFails w c then [Close c] else [])\<rparr>)
      else (None, w))"

subsection \<open>broadcastToClients and storeTemperatureReading\<close>

text \<open>
  \<^verbatim>\<open>connectedClients.forEach\<close> visits the clients in insertion order; an exception in
  the callback ends the loop and leaves \<^verbatim>\<open>broadcastToClients\<close>.
\<close>

fun forEach_send :: "conn list \<Rightarrow> string \<Rightarrow> world \<Rightarrow> exn option \<times> world" where
  "forEach_send [] json w = (None, w)"
| "forEach_send (client # rest) json w =
     (if readyState w client = 1 then
        (case ws_send client json w of
           (Some x, w') \<Rightarrow> (Some x, w')
         | (None, w') \<Rightarrow> forEach_send rest json w')
      else forEach_send rest json w)"

definition broadcastToClients :: "env \<Rightarrow> outmsg \<Rightarrow> world \<Rightarrow> exn option \<times> world" where
  "broadcastToClients e message w =
     (case JSON_stringify e message of
        None \<Rightarrow> (Some RangeError, w)
      | Some json \<Rightarrow>
          (let w1 = w\<lparr>stringified := stringified w @ [message]\<rparr>
           in forEach_send (connectedClients w1) json w1))"

definition storeTemperatureReading :: "jsval \<Rightarrow> jsval \<Rightarrow> jsval \<Rightarrow> world \<Rightarrow> world" where
  "storeTemperatureReading d a ob w = console_log (LogDB d a ob) w"

subsection \<open>The handlers of a connection\<close>

text \<open>
  \<^verbatim>\<open>httpServer.on('upgrade', ...)\<close>: a request is handed to the WebSocket server, which
  then emits the connection event, exactly when its URL is \<^verbatim>\<open>/ws/temperature\<close>; the
  socket of any other request is destroyed.
\<close>

definition upgrade_accepted :: "string option \<Rightarrow> bool" where
  "upgrade_accepted url =
     (let pathname = (case url of None \<Rightarrow> [] | Some u \<Rightarrow> if u \<noteq> [] then u else [])
      in pathname = ''/ws/temperature'')"

definition onConnection :: "env \<Rightarrow> conn \<Rightarrow> world \<Rightarrow> world" where
  "onConnection e websocket w =
     (let (now, w1) = Date_now e w;
          w2 = w1\<lparr>clientId := (clientId w1)(websocket := now)\<rparr>;
          w3 = console_log (LogNewConnection now) w2
      in w3\<lparr>connectedClients := Set_add (connectedClients w3) websocket\<rparr>)"

text \<open>
  The branch \<^verbatim>\<open>message.type === 'temperature'\<close> (lines 164 to 186 of the route file), in
  the order of its statements: the object literal \<^verbatim>\<open>deviceData\<close>, whose timestamp is
  \<^verbatim>\<open>message.timestamp || Date.now()\<close>; \<^verbatim>\<open>deviceLatestData.set\<close>; the log line, whose
  template literal converts the three fields to strings and may throw; the broadcast of
  \<^verbatim>\<open>{type: 'temperature-update', data: deviceData, timestamp: Date.now()}\<close>, in which
  \<^verbatim>\<open>JSON.stringify\<close> may throw; and \<^verbatim>\<open>storeTemperatureReading\<close>. No statement tests
  whether a field is present or what type it has. An exception leaves the branch with
  the effects made so far.
\<close>

definition temperature_branch :: "env \<Rightarrow> jsval \<Rightarrow> world \<Rightarrow> exn option \<times> world" where
  "temperature_branch e message w =
     (let (ts, w1) =
            (if truthy (js_prop message ''timestamp'') then (js_prop message ''timestamp'', w)
             else (let (now, w') = Date_now e w in (JNum now, w')));
          deviceData = \<lparr>deviceId = js_prop message ''deviceId'',
                        ambientTemp = js_prop message ''ambientTemp'',
                        objectTemp = js_prop message ''objectTemp'',
                        timestamp = ts\<rparr>;
          w2 = w1\<lparr>deviceLatestData :=
                    Map_set (deviceLatestData w1) (js_prop message ''deviceId'') deviceData\<rparr>
      in case first_exn [toString_exn (join_limit e) (js_prop message ''deviceId''),
                         toString_exn (join_limit e) (js_prop message ''ambientTemp''),
                         toString_exn (join_limit e) (js_prop message ''objectTemp'')] of
           Some x \<Rightarrow> (Some x, w2)
         | None \<Rightarrow>
           (let w3 = console_log (LogTemperature (js_prop message ''deviceId'')
                        (js_prop message ''ambientTemp'') (js_prop message ''objectTemp'')) w2;
                (now, w4) = Date_now e w3
            in case broadcastToClients e (TemperatureUpdate deviceData now) w4 of
                 (Some x, w5) \<Rightarrow> (Some x, w5)
               | (None, w5) \<Rightarrow>
                   (None, storeTemperatureReading (js_prop message ''deviceId'')
                      (js_prop message ''ambientTemp'') (js_prop message ''objectTemp'') w5)))"

text \<open>
  The branch \<^verbatim>\<open>message.type === 'handshake'\<close> (lines 188 to 196): the log line, which
  interpolates \<^verbatim>\<open>message.deviceId\<close> and \<^verbatim>\<open>message.deviceName\<close> and may throw, then
  \<^verbatim>\<open>websocket.send(JSON.stringify({type: 'handshake-ack', ...}))\<close> on the socket of the
  handler, without a test of its \<^verbatim>\<open>readyState\<close>.
\<close>

definition handshake_branch :: "env \<Rightarrow> conn \<Rightarrow> jsval \<Rightarrow> world \<Rightarrow> exn option \<times> world" where
  "handshake_branch e websocket message w =
     (case first_exn [toString_exn (join_limit e) (js_prop message ''deviceId''),
                      toString_exn (join_limit e) (js_prop message ''deviceName'')] of
        Some x \<Rightarrow> (Some x, w)
      | None \<Rightarrow>
        (let w1 = console_log (LogHandshake (js_prop message ''deviceId'')
                     (js_prop message ''deviceName'')) w;
             (now, w2) = Date_now e w1;
             ack = HandshakeAck ''Welcome to Temperature Monitor'' now
         in case JSON_stringify e ack of
              None \<Rightarrow> (Some RangeError, w2)
            | Some json \<Rightarrow> ws_send websocket json (w2\<lparr>stringified := stringified w2 @ [ack]\<rparr>)))"

text \<open>
  The body of the \<^verbatim>\<open>try\<close> block of the message handler. \<^verbatim>\<open>message.type\<close> throws when
  the frame parses to \<^verbatim>\<open>null\<close>; a frame of any other type is ignored. The handler
  itself catches whatever the block throws and logs it.
\<close>

definition message_try :: "env \<Rightarrow> conn \<Rightarrow> string \<Rightarrow> world \<Rightarrow> exn option \<times> world" where
  "message_try e websocket data w =
     (case JSON_parse e data of
        None \<Rightarrow> (Some SyntaxError, w)
      | Some message \<Rightarrow>
          if nullish message then (Some TypeError, w)
          else if js_prop message ''type'' = JStr ''temperature''
            then temperature_branch e message w
          else if js_prop message ''type'' = JStr ''handshake''
            then handshake_branch e websocket message w
          else (None, w))"

definition onMessage :: "env \<Rightarrow> conn \<Rightarrow> string \<Rightarrow> world \<Rightarrow> world" where
  "onMessage e websocket data w =
     (case message_try e websocket data w of
        (None, w') \<Rightarrow> w'
      | (Some error, w') \<Rightarrow> console_log (LogParseError error) w')"

definition onClose :: "conn \<Rightarrow> world \<Rightarrow> world" where
  "onClose websocket w =
     (let w1 = console_log (LogDisconnected (clientId w websocket)) w
      in w1\<lparr>connectedClients := Set_delete (connectedClients w1) websocket\<rparr>)"

definition onError :: "conn \<Rightarrow> string \<Rightarrow> world \<Rightarrow> world" where
  "onError websocket msg w =
     (let w1 = console_log (LogClientError msg) w
      in w1\<lparr>connectedClients := Set_delete (connectedClients w1) websocket\<rparr>)"

subsection \<open>The REST routes on the registry and the router\<close>

datatype latest_response = Reading DeviceData | DeviceNotFound | AllReadings "DeviceData list"

definition api_temperature_latest :: "string option \<Rightarrow> world \<Rightarrow> latest_response" where
  "api_temperature_latest q w =
     (case q of
        Some d \<Rightarrow>
          if d \<noteq> [] then
            (case Map_get (deviceLatestData w) (JStr d) of
               Some data \<Rightarrow> Reading data
             | None \<Rightarrow> DeviceNotFound)
          else AllReadings (Map_values (deviceLatestData w))
      | None \<Rightarrow> AllReadings (Map_values (deviceLatestData w)))"

text \<open>\<open>GetLatest\<close> of the specification is \<^verbatim>\<open>deviceLatestData.get(deviceId)\<close>.\<close>

definition GetLatest :: "world \<Rightarrow> string \<Rightarrow> DeviceData option" where
  "GetLatest w d = Map_get (deviceLatestData w) (JStr d)"

text \<open>
  \<^verbatim>\<open>POST /api/temperature/alert\<close>: the status of the response and the world after it.
  Destructuring a body that is \<^verbatim>\<open>null\<close> or \<^verbatim>\<open>undefined\<close> throws.
\<close>

definition api_temperature_alert :: "env \<Rightarrow> jsval \<Rightarrow> world \<Rightarrow> nat \<times> world" where
  "api_temperature_alert e body w =
     (if nullish body then (500, console_log (LogAlertError TypeError) w)
      else
        (let (now, w1) = Date_now e w
         in case broadcastToClients e
                   (Alert (js_prop body ''deviceId'') (js_prop body ''alertMessage'') now) w1 of
              (None, w2) \<Rightarrow> (200, w2)
            | (Some x, w2) \<Rightarrow> (500, console_log (LogAlertError x) w2)))"

subsection \<open>Runs\<close>

fun step :: "env \<Rightarrow> world \<Rightarrow> event \<Rightarrow> world" where
  "step e w (Connection c) = onConnection e c w"
| "step e w (Message c data) = onMessage e c data w"
| "step e w (Close c) = onClose c w"
| "step e w (Error c msg) = onError c msg w"
| "step e w (PostAlert body) = snd (api_temperature_alert e body w)"
| "step e w (Transport c rs fl) =
     w\<lparr>readyState := (readyState w)(c := rs), writeFails := (writeFails w)(c := fl)\<rparr>"

definition run :: "env \<Rightarrow> world \<Rightarrow> event list \<Rightarrow> world" where
  "run e w evs = foldl (step e) w evs"

subsection \<open>Notions used in the statements\<close>

text \<open>
  The clients that a broadcast addresses, and the number of messages in a list of
  \<^verbatim>\<open>send\<close> calls that went to one client.
\<close>

definition receivers :: "world \<Rightarrow> conn list" where
  "receivers w = filter (\<lambda>c. readyState w c = 1) (connectedClients w)"

definition copies :: "conn \<Rightarrow> (conn \<times> string) list \<Rightarrow> nat" where
  "copies c new = length (filter (\<lambda>p. fst p = c) new)"

text \<open>
  The object literal \<^verbatim>\<open>deviceData\<close> of the temperature branch for a message that arrives
  in world \<open>w\<close>, the condition under which the log line of that branch throws, and the
  value of \<^verbatim>\<open>Date.now()\<close> that the branch puts into the broadcast.
\<close>

definition stored_reading :: "env \<Rightarrow> jsval \<Rightarrow> world \<Rightarrow> DeviceData" where
  "stored_reading e message w =
     \<lparr>deviceId = js_prop message ''deviceId'',
      ambientTemp = js_prop message ''ambientTemp'',
      objectTemp = js_prop message ''objectTemp'',
      timestamp = (if truthy (js_prop message ''timestamp'') then js_prop message ''timestamp''
                   else JNum (clock e (ticks w)))\<rparr>"

definition log_throws :: "env \<Rightarrow> jsval \<Rightarrow> bool" where
  "log_throws e message \<longleftrightarrow>
     first_exn [toString_exn (join_limit e) (js_prop message ''deviceId''),
                toString_exn (join_limit e) (js_prop message ''ambientTemp''),
                toString_exn (join_limit e) (js_prop message ''objectTemp'')] \<noteq> None"

definition broadcast_time :: "env \<Rightarrow> jsval \<Rightarrow> world \<Rightarrow> real" where
  "broadcast_time e message w =
     clock e (if truthy (js_prop message ''timestamp'') then ticks w else Suc (ticks w))"

text \<open>
  \<open>scalar_fields\<close>: each of the four fields that the temperature branch reads is absent
  or holds \<^verbatim>\<open>null\<close>, a boolean, a number or a string.
\<close>

definition scalar_fields :: "jsval \<Rightarrow> bool" where
  "scalar_fields message \<longleftrightarrow>
     js_primitive (js_prop message ''deviceId'') \<and> js_primitive (js_prop message ''ambientTemp'')
     \<and> js_primitive (js_prop message ''objectTemp'') \<and> js_primitive (js_prop message ''timestamp'')"

text \<open>
  What one client was sent, in order. \<open>is_broadcast\<close> tells the events that go through
  \<^verbatim>\<open>broadcastToClients\<close> from the acknowledgement of a handshake.
\<close>

definition received :: "conn \<Rightarrow> (conn \<times> string) list \<Rightarrow> string list" where
  "received c ss = map snd (filter (\<lambda>p. fst p = c) ss)"

fun is_broadcast :: "outmsg \<Rightarrow> bool" where
  "is_broadcast (TemperatureUpdate d t) = True"
| "is_broadcast (Alert d s t) = True"
| "is_broadcast (HandshakeAck s t) = False"

text \<open>
  \<open>delivered_all e c w w'\<close>: between the worlds \<open>w\<close> and \<open>w'\<close> the server has only added
  to \<open>sent\<close> and \<open>stringified\<close>, and the texts of the broadcasts it serialized in between
  occur, in their order, among the messages sent to \<open>c\<close>.
\<close>

definition delivered_all :: "env \<Rightarrow> conn \<Rightarrow> world \<Rightarrow> world \<Rightarrow> bool" where
  "delivered_all e c w w' \<longleftrightarrow>
     (\<exists>ss ms. sent w' = sent w @ ss \<and> stringified w' = stringified w @ ms
        \<and> subseq (map (JSON_text e) (filter is_broadcast ms)) (received c ss))"

text \<open>
  \<open>removes c ev\<close>: the event runs the close or the error handler of \<open>c\<close>.
  \<open>open_member c w\<close>: \<open>c\<close> is in the set and its socket is open. \<open>keeps_open c ev\<close>: the
  event neither removes \<open>c\<close> nor is a change of the transport that takes the socket of
  \<open>c\<close> out of the open state.
\<close>

fun removes :: "conn \<Rightarrow> event \<Rightarrow> bool" where
  "removes c (Close c') = (c' = c)"
| "removes c (Error c' msg) = (c' = c)"
| "removes c ev = False"

fun keeps_open :: "conn \<Rightarrow> event \<Rightarrow> bool" where
  "keeps_open c (Transport c' rs fl) = (c' = c \<longrightarrow> rs = 1)"
| "keeps_open c ev = (\<not> removes c ev)"

definition open_member :: "conn \<Rightarrow> world \<Rightarrow> bool" where
  "open_member c w \<longleftrightarrow> c \<in> set (connectedClients w) \<and> readyState w c = 1"

text \<open>
  \<open>send_fails e ev w c\<close>: in the call \<^verbatim>\<open>broadcastToClients(ev)\<close> made in world \<open>w\<close> a send
  to subscriber \<open>c\<close> fails: the event is serialized, \<open>c\<close> is addressed, and the write to
  its peer fails. \<open>failing w\<close> lists the subscribers for which that is so.
\<close>

definition failing :: "world \<Rightarrow> conn list" where
  "failing w = filter (writeFails w) (receivers w)"

definition send_fails :: "env \<Rightarrow> outmsg \<Rightarrow> world \<Rightarrow> conn \<Rightarrow> bool" where
  "send_fails e ev w c \<longleftrightarrow> JSON_stringify e ev \<noteq> None \<and> c \<in> set (failing w)"

text \<open>\<open>nest n v\<close> is \<open>v\<close> inside \<open>n\<close> arrays of one element.\<close>

primrec nest :: "nat \<Rightarrow> jsval \<Rightarrow> jsval" where
  "nest 0 v = v"
| "nest (Suc n) v = JArr [nest n v]"

subsection \<open>Scenarios\<close>

text \<open>
  Concrete inputs for the closed theorems: the parser on the frames of the scenarios
  (anything else, such as \<^verbatim>\<open>not json\<close>, is a syntax error), a serializer that keeps the
  type tag only, a clock, an engine that converts arrays nested up to 4096 deep and
  serializes up to 8192 containers below the fields, the world at server start and
  worlds with connected clients. \<open>deep_frame\<close> is a temperature frame whose timestamp is
  \<^verbatim>\<open>null\<close> inside 100000 arrays; in \<open>third_write_fails\<close> the peer of client 3 is gone.
\<close>

definition deep_frame :: string where
  \<open>deep_frame = ''{"type":"temperature","timestamp":'' @ replicate 100000 CHR ''[''
     @ ''null'' @ replicate 100000 CHR '']''
     @ '',"deviceId":"D1","ambientTemp":24.5,"objectTemp":32.1}''\<close>

definition scenario_parse :: "string \<Rightarrow> jsval option" where
  \<open>scenario_parse data =
    (if data = deep_frame then
       Some (JObj [(''type'', JStr ''temperature''), (''timestamp'', nest 100000 JNull),
                   (''deviceId'', JStr ''D1''), (''ambientTemp'', JNum 24.5),
                   (''objectTemp'', JNum 32.1)])
     else map_of
     [(''{"type":"temperature","deviceId":"D1","ambientTemp":24.5,"objectTemp":32.1}'',
         JObj [(''type'', JStr ''temperature''), (''deviceId'', JStr ''D1''),
               (''ambientTemp'', JNum 24.5), (''objectTemp'', JNum 32.1)]),
      (''{"type":"temperature","deviceId":"D2"}'',
         JObj [(''type'', JStr ''temperature''), (''deviceId'', JStr ''D2'')]),
      (''{"type":"temperature","deviceId":42,"ambientTemp":24.5,"objectTemp":32.1}'',
         JObj [(''type'', JStr ''temperature''), (''deviceId'', JNum 42),
               (''ambientTemp'', JNum 24.5), (''objectTemp'', JNum 32.1)]),
      (''{"type":"temperature","deviceId":"D1","ambientTemp":25,"objectTemp":36,"timestamp":0}'',
         JObj [(''type'', JStr ''temperature''), (''deviceId'', JStr ''D1''),
               (''ambientTemp'', JNum 25), (''objectTemp'', JNum 36), (''timestamp'', JNum 0)]),
      (''{"type":"temperature","deviceId":"D1","ambientTemp":25,"objectTemp":36,"timestamp":1000}'',
         JObj [(''type'', JStr ''temperature''), (''deviceId'', JStr ''D1''),
               (''ambientTemp'', JNum 25), (''objectTemp'', JNum 36), (''timestamp'', JNum 1000)]),
      (''{"type":"temperature","deviceId":"D1","ambientTemp":26,"objectTemp":37,"timestamp":2000}'',
         JObj [(''type'', JStr ''temperature''), (''deviceId'', JStr ''D1''),
               (''ambientTemp'', JNum 26), (''objectTemp'', JNum 37), (''timestamp'', JNum 2000)]),
      (''{"type":"handshake","deviceId":"D1","deviceName":"ESP32"}'',
         JObj [(''type'', JStr ''handshake''), (''deviceId'', JStr ''D1''),
               (''deviceName'', JStr ''ESP32'')]),
      (''{"type":"handshake","deviceId":{"toString":1}}'',
         JObj [(''type'', JStr ''handshake''),
               (''deviceId'', JObj [(''toString'', JNum 1)])])] data)\<close>

definition scenario_text :: "outmsg \<Rightarrow> string" where
  "scenario_text m =
     (case m of
        TemperatureUpdate d t \<Rightarrow> ''temperature-update''
      | HandshakeAck s t \<Rightarrow> ''handshake-ack''
      | Alert d s t \<Rightarrow> ''alert'')"

definition scenario_env :: env where
  "scenario_env = \<lparr>JSON_parse = scenario_parse, JSON_text = scenario_text,
      clock = (\<lambda>n. 1700000000000 + real n), join_limit = 4096,
      stringify_limit = Some 8192\<rparr>"

definition world0 :: world where
  "world0 = \<lparr>deviceLatestData = [], connectedClients = [], clientId = (\<lambda>c. 0),
      readyState = (\<lambda>c. 1), writeFails = (\<lambda>c. False), sent = [], pending = [],
      stringified = [], console = [], ticks = 0\<rparr>"

definition two_clients :: world where
  "two_clients = world0\<lparr>connectedClients := [1, 2]\<rparr>"

definition three_clients :: world where
  "three_clients = world0\<lparr>connectedClients := [1, 2, 3], readyState := (\<lambda>c. if c = 2 then 3 else 1)\<rparr>"

definition third_write_fails :: world where
  "third_write_fails = three_clients\<lparr>writeFails := (\<lambda>c. c = 3)\<rparr>"

section \<open>Properties\<close>

subsection \<open>Conversions that throw\<close>

lemma toString_exn_primitive: "js_primitive v \<Longrightarrow> toString_exn l v = None"
  by (cases v) simp_all

lemma js_depth_primitive: "js_primitive v \<Longrightarrow> js_depth v = 0"
  by (cases v) simp_all

lemma toString_exn_nest: "toString_exn l (nest (Suc l) v) = Some RangeError"
  by (induction l) simp_all

lemma js_depth_nest: "js_depth (nest n v) = n + js_depth v"
  by (induction n) simp_all

lemma truthy_nest: "0 < n \<Longrightarrow> truthy (nest n v)"
  by (cases n) simp_all

lemma JSON_stringify_flat: "msg_depth m \<le> 2 \<Longrightarrow> JSON_stringify e m = Some (JSON_text e m)"
  by (simp add: JSON_stringify_def split: option.splits)

lemma JSON_stringify_Some: "JSON_stringify e m = Some json \<Longrightarrow> json = JSON_text e m"
  by (simp add: JSON_stringify_def split: option.splits if_splits)

subsection \<open>The broadcast loop\<close>

lemma forEach_send_eq:
  "forEach_send cs json w =
     (None, w\<lparr>sent := sent w @ map (\<lambda>c. (c, json)) (filter (\<lambda>c. readyState w c = 1) cs),
              pending := pending w @
                map Close (filter (writeFails w) (filter (\<lambda>c. readyState w c = 1) cs))\<rparr>)"
proof (induction cs arbitrary: w)
  case Nil
  show ?case by simp
next
  case (Cons c cs)
  show ?case
    by (simp add: ws_send_def Cons.IH)
qed

lemma broadcastToClients_eq:
  "broadcastToClients e m w =
     (case JSON_stringify e m of
        None \<Rightarrow> (Some RangeError, w)
      | Some json \<Rightarrow>
          (None, w\<lparr>sent := sent w @ map (\<lambda>c. (c, json)) (receivers w),
                   pending := pending w @ map Close (failing w),
                   stringified := stringified w @ [m]\<rparr>))"
  by (simp add: broadcastToClients_def forEach_send_eq receivers_def failing_def
      split: option.splits)

lemma copies_map:
  "distinct cs \<Longrightarrow> copies c (map (\<lambda>c. (c, s)) cs) = (if c \<in> set cs then 1 else 0)"
  by (induction cs) (auto simp: copies_def)

lemma receivers_simps [simp]:
  "receivers (w\<lparr>console := l\<rparr>) = receivers w"
  "receivers (w\<lparr>ticks := n\<rparr>) = receivers w"
  "receivers (w\<lparr>deviceLatestData := r\<rparr>) = receivers w"
  "receivers (w\<lparr>sent := s\<rparr>) = receivers w"
  "receivers (w\<lparr>pending := p\<rparr>) = receivers w"
  "receivers (w\<lparr>stringified := ms\<rparr>) = receivers w"
  "receivers (w\<lparr>clientId := ci\<rparr>) = receivers w"
  by (simp_all add: receivers_def)

lemma failing_simps [simp]:
  "failing (w\<lparr>console := l\<rparr>) = failing w"
  "failing (w\<lparr>ticks := n\<rparr>) = failing w"
  "failing (w\<lparr>deviceLatestData := r\<rparr>) = failing w"
  "failing (w\<lparr>sent := s\<rparr>) = failing w"
  "failing (w\<lparr>pending := p\<rparr>) = failing w"
  "failing (w\<lparr>stringified := ms\<rparr>) = failing w"
  "failing (w\<lparr>clientId := ci\<rparr>) = failing w"
  by (simp_all add: failing_def)

lemmas handler_defs =
  onMessage_def message_try_def temperature_branch_def handshake_branch_def
  storeTemperatureReading_def console_log_def Date_now_def ws_send_def

subsection \<open>The branches of the message handler in closed form\<close>

lemma temperature_branch_eq:
  "temperature_branch e m w =
     (case first_exn [toString_exn (join_limit e) (js_prop m ''deviceId''),
                      toString_exn (join_limit e) (js_prop m ''ambientTemp''),
                      toString_exn (join_limit e) (js_prop m ''objectTemp'')] of
        Some x \<Rightarrow>
          (Some x,
           w\<lparr>deviceLatestData :=
                Map_set (deviceLatestData w) (js_prop m ''deviceId'') (stored_reading e m w),
             ticks := (if truthy (js_prop m ''timestamp'') then ticks w else Suc (ticks w))\<rparr>)
      | None \<Rightarrow>
          (case JSON_stringify e
                  (TemperatureUpdate (stored_reading e m w) (broadcast_time e m w)) of
             None \<Rightarrow>
               (Some RangeError,
                w\<lparr>deviceLatestData :=
                     Map_set (deviceLatestData w) (js_prop m ''deviceId'') (stored_reading e m w),
                  console := console w @ [LogTemperature (js_prop m ''deviceId'')
                     (js_prop m ''ambientTemp'') (js_prop m ''objectTemp'')],
                  ticks :=
                    Suc (if truthy (js_prop m ''timestamp'') then ticks w else Suc (ticks w))\<rparr>)
           | Some json \<Rightarrow>
               (None,
                w\<lparr>deviceLatestData :=
                     Map_set (deviceLatestData w) (js_prop m ''deviceId'') (stored_reading e m w),
                  sent := sent w @ map (\<lambda>c. (c, json)) (receivers w),
                  pending := pending w @ map Close (failing w),
                  stringified := stringified w @
                     [TemperatureUpdate (stored_reading e m w) (broadcast_time e m w)],
                  console := console w @
                     [LogTemperature (js_prop m ''deviceId'') (js_prop m ''ambientTemp'')
                        (js_prop m ''objectTemp''),
                      LogDB (js_prop m ''deviceId'') (js_prop m ''ambientTemp'')
                        (js_prop m ''objectTemp'')],
                  ticks :=
                    Suc (if truthy (js_prop m ''timestamp'') then ticks w
                         else Suc (ticks w))\<rparr>)))"
proof (cases "truthy (js_prop m ''timestamp'')")
  case True
  then show ?thesis
    by (simp add: temperature_branch_def broadcastToClients_eq stored_reading_def
        broadcast_time_def storeTemperatureReading_def console_log_def Date_now_def Let_def
        split: option.splits)
next
  case False
  then show ?thesis
    by (simp add: temperature_branch_def broadcastToClients_eq stored_reading_def
        broadcast_time_def storeTemperatureReading_def console_log_def Date_now_def Let_def
        split: option.splits)
qed

lemma JSON_stringify_ack:
  "JSON_stringify e (HandshakeAck s t) = Some (JSON_text e (HandshakeAck s t))"
  by (simp add: JSON_stringify_flat)

lemma handshake_branch_eq:
  "handshake_branch e c m w =
     (case first_exn [toString_exn (join_limit e) (js_prop m ''deviceId''),
                      toString_exn (join_limit e) (js_prop m ''deviceName'')] of
        Some x \<Rightarrow> (Some x, w)
      | None \<Rightarrow>
          (if readyState w c = 0 then
             (Some (SendError c),
              w\<lparr>stringified := stringified w @
                    [HandshakeAck ''Welcome to Temperature Monitor'' (clock e (ticks w))],
                 console := console w @
                    [LogHandshake (js_prop m ''deviceId'') (js_prop m ''deviceName'')],
                 ticks := Suc (ticks w)\<rparr>)
           else if readyState w c = 1 then
             (None,
              w\<lparr>sent := sent w @ [(c, JSON_text e
                    (HandshakeAck ''Welcome to Temperature Monitor'' (clock e (ticks w))))],
                 pending := pending w @ (if writeFails w c then [Close c] else []),
                 stringified := stringified w @
                    [HandshakeAck ''Welcome to Temperature Monitor'' (clock e (ticks w))],
                 console := console w @
                    [LogHandshake (js_prop m ''deviceId'') (js_prop m ''deviceName'')],
                 ticks := Suc (ticks w)\<rparr>)
           else
             (None,
              w\<lparr>stringified := stringified w @
                    [HandshakeAck ''Welcome to Temperature Monitor'' (clock e (ticks w))],
                 console := console w @
                    [LogHandshake (js_prop m ''deviceId'') (js_prop m ''deviceName'')],
                 ticks := Suc (ticks w)\<rparr>)))"
  by (simp add: handshake_branch_def JSON_stringify_ack console_log_def Date_now_def
      ws_send_def Let_def split: option.splits)

lemmas branch_eqs = onMessage_def message_try_def temperature_branch_eq handshake_branch_eq
  console_log_def

lemma connectedClients_onMessage [simp]:
  "connectedClients (onMessage e c data w) = connectedClients w"
  by (simp add: branch_eqs split: option.splits)

lemma readyState_onMessage [simp]:
  "readyState (onMessage e c data w) = readyState w"
  by (simp add: branch_eqs split: option.splits)

lemma writeFails_onMessage [simp]:
  "writeFails (onMessage e c data w) = writeFails w"
  by (simp add: branch_eqs split: option.splits)

lemmas scenario_defs = scenario_env_def scenario_parse_def scenario_text_def world0_def
  two_clients_def three_clients_def deep_frame_def

lemmas eval_defs = scenario_defs third_write_fails_def branch_eqs stored_reading_def
  broadcast_time_def JSON_stringify_def broadcastToClients_eq api_temperature_alert_def
  onConnection_def Date_now_def onClose_def onError_def Set_add_def Set_delete_def
  GetLatest_def Map_get_def run_def receivers_def failing_def Let_def

lemma step_distinct:
  "distinct (connectedClients w) \<Longrightarrow> distinct (connectedClients (step e w ev))"
  by (cases ev)
     (auto simp: onConnection_def onClose_def onError_def console_log_def Date_now_def
        Set_add_def Set_delete_def api_temperature_alert_def broadcastToClients_eq Let_def
        distinct_removeAll split: option.splits)

lemma run_distinct:
  "distinct (connectedClients w) \<Longrightarrow> distinct (connectedClients (run e w evs))"
  unfolding run_def
  by (induction evs arbitrary: w) (simp_all add: step_distinct)

lemma run_Close:
  "connectedClients (run e w (map Close cs)) = filter (\<lambda>c. c \<notin> set cs) (connectedClients w)"
  unfolding run_def
proof (induction cs arbitrary: w)
  case Nil
  show ?case by simp
next
  case (Cons c cs)
  show ?case
    by (auto simp: Cons.IH onClose_def console_log_def Set_delete_def Let_def
        removeAll_filter_not_eq intro: filter_cong)
qed

subsection \<open>Frames that do not parse\<close>

lemma message_try_console:
  "message_try e c data (w\<lparr>console := l\<rparr>) =
     (case message_try e c data w of
        (r, w') \<Rightarrow> (r, w'\<lparr>console := l @ drop (length (console w)) (console w')\<rparr>))"
  by (simp add: message_try_def temperature_branch_eq handshake_branch_eq
      stored_reading_def broadcast_time_def split: option.splits)

lemma message_try_console_length:
  "length (console w) \<le> length (console (snd (message_try e c data w)))"
  by (simp add: message_try_def temperature_branch_eq handshake_branch_eq
      split: option.splits)

lemma onMessage_console:
  "onMessage e c data (w\<lparr>console := l\<rparr>) =
     (onMessage e c data w)\<lparr>console := l @ drop (length (console w)) (console (onMessage e c data w))\<rparr>"
proof (cases "message_try e c data w")
  case (Pair r w')
  then show ?thesis
    using message_try_console_length[of w e c data]
    by (cases r) (simp_all add: onMessage_def message_try_console console_log_def)
qed

text \<open>
  Claim C4. When \<^verbatim>\<open>JSON.parse\<close> throws, the handler only logs the error: registry,
  subscriber set, sockets and sent messages are as before. The next frame on the
  connection is handled exactly as if the bad frame had not arrived; only the log
  holds the additional error line.
\<close>

theorem malformed_json_dropped:
  assumes "JSON_parse e data = None"
  shows "onMessage e c data w = w\<lparr>console := console w @ [LogParseError SyntaxError]\<rparr>
       \<and> onMessage e c data' (onMessage e c data w) =
           (onMessage e c data' w)\<lparr>console := console w @ [LogParseError SyntaxError]
              @ drop (length (console w)) (console (onMessage e c data' w))\<rparr>"
proof -
  have 1: "onMessage e c data w = w\<lparr>console := console w @ [LogParseError SyntaxError]\<rparr>"
    using assms by (simp add: onMessage_def message_try_def console_log_def)
  show ?thesis
    unfolding 1 by (simp add: onMessage_console)
qed

theorem malformed_json_dropped_witness:
  \<open>JSON_parse scenario_env ''not json'' = None
   \<and> onMessage scenario_env 1 ''not json'' two_clients =
       two_clients\<lparr>console := [LogParseError SyntaxError]\<rparr>
   \<and> onMessage scenario_env 1 ''{"type":"temperature","deviceId":"D2"}''
        (onMessage scenario_env 1 ''not json'' two_clients) =
       two_clients\<lparr>
         deviceLatestData := [(JStr ''D2'', \<lparr>deviceId = JStr ''D2'', ambientTemp = JUndefined,
            objectTemp = JUndefined, timestamp = JNum 1700000000000\<rparr>)],
         sent := [(1, ''temperature-update''), (2, ''temperature-update'')],
         stringified := [TemperatureUpdate \<lparr>deviceId = JStr ''D2'', ambientTemp = JUndefined,
            objectTemp = JUndefined, timestamp = JNum 1700000000000\<rparr> 1700000000001],
         console := [LogParseError SyntaxError,
            LogTemperature (JStr ''D2'') JUndefined JUndefined,
            LogDB (JStr ''D2'') JUndefined JUndefined],
         ticks := 2\<rparr>\<close>
proof -
  have h: \<open>JSON_parse scenario_env ''not json'' = None\<close>
    by (simp add: scenario_defs)
  have v: \<open>onMessage scenario_env 1 ''{"type":"temperature","deviceId":"D2"}'' two_clients =
       two_clients\<lparr>
         deviceLatestData := [(JStr ''D2'', \<lparr>deviceId = JStr ''D2'', ambientTemp = JUndefined,
            objectTemp = JUndefined, timestamp = JNum 1700000000000\<rparr>)],
         sent := [(1, ''temperature-update''), (2, ''temperature-update'')],
         stringified := [TemperatureUpdate \<lparr>deviceId = JStr ''D2'', ambientTemp = JUndefined,
            objectTemp = JUndefined, timestamp = JNum 1700000000000\<rparr> 1700000000001],
         console := [
            LogTemperature (JStr ''D2'') JUndefined JUndefined,
            LogDB (JStr ''D2'') JUndefined JUndefined],
         ticks := 2\<rparr>\<close>
    by (simp add: eval_defs)
  note t = malformed_json_dropped[OF h, of 1 two_clients \<open>''{"type":"temperature","deviceId":"D2"}''\<close>]
  show ?thesis
  proof (intro conjI)
    show \<open>JSON_parse scenario_env ''not json'' = None\<close>
      by (rule h)
    show \<open>onMessage scenario_env 1 ''not json'' two_clients =
       two_clients\<lparr>console := [LogParseError SyntaxError]\<rparr>\<close>
      using t[THEN conjunct1] by (simp add: two_clients_def world0_def)
    show \<open>onMessage scenario_env 1 ''{"type":"temperature","deviceId":"D2"}''
        (onMessage scenario_env 1 ''not json'' two_clients) =
       two_clients\<lparr>
         deviceLatestData := [(JStr ''D2'', \<lparr>deviceId = JStr ''D2'', ambientTemp = JUndefined,
            objectTemp = JUndefined, timestamp = JNum 1700000000000\<rparr>)],
         sent := [(1, ''temperature-update''), (2, ''temperature-update'')],
         stringified := [TemperatureUpdate \<lparr>deviceId = JStr ''D2'', ambientTemp = JUndefined,
            objectTemp = JUndefined, timestamp = JNum 1700000000000\<rparr> 1700000000001],
         console := [LogParseError SyntaxError,
            LogTemperature (JStr ''D2'') JUndefined JUndefined,
            LogDB (JStr ''D2'') JUndefined JUndefined],
         ticks := 2\<rparr>\<close>
      unfolding t[THEN conjunct2] v by (simp add: two_clients_def world0_def)
  qed
qed

subsection \<open>Publishing an event\<close>

text \<open>
  Claim C2, as stated, fails for an event that \<^verbatim>\<open>JSON.stringify\<close> cannot serialize. The
  timestamp of \<open>deep_frame\<close> is an array nested 100000 deep; it is truthy, so it becomes
  the timestamp of the reading, and the serializer of the scenario, which follows 8192
  levels, throws a RangeError on the temperature update. \<^verbatim>\<open>broadcastToClients\<close> is left
  by the exception: nothing is serialized, and neither of the two open subscribers
  gets a copy.
\<close>

theorem publish_unserializable:
  "JSON_stringify scenario_env
       (TemperatureUpdate \<lparr>deviceId = JStr ''D1'', ambientTemp = JNum 24.5,
          objectTemp = JNum 32.1, timestamp = nest 100000 JNull\<rparr> 1700000000002) = None
   \<and> receivers two_clients = [1, 2]
   \<and> broadcastToClients scenario_env
       (TemperatureUpdate \<lparr>deviceId = JStr ''D1'', ambientTemp = JNum 24.5,
          objectTemp = JNum 32.1, timestamp = nest 100000 JNull\<rparr> 1700000000002) two_clients =
       (Some RangeError, two_clients)
   \<and> connectedClients (run scenario_env world0
        [Connection 1, Connection 2, Message 1 deep_frame]) = [1, 2]
   \<and> stringified (run scenario_env world0
        [Connection 1, Connection 2, Message 1 deep_frame]) = []
   \<and> sent (run scenario_env world0 [Connection 1, Connection 2, Message 1 deep_frame]) = []
   \<and> console (run scenario_env world0 [Connection 1, Connection 2, Message 1 deep_frame]) =
       [LogNewConnection 1700000000000, LogNewConnection 1700000000001,
        LogTemperature (JStr ''D1'') (JNum 24.5) (JNum 32.1), LogParseError RangeError]"
  by (simp add: eval_defs js_depth_nest truthy_nest)

text \<open>
  Claim C2, amended to the events that \<^verbatim>\<open>JSON.stringify\<close> serializes, in a world in
  which the subscriber set holds each connection once, as every run from a set does.
  The call serializes the event once (one new entry of \<open>stringified\<close>), returns without
  exception and sends that one string to the clients of the set whose \<^verbatim>\<open>readyState\<close> is
  1, in insertion order: every such client gets exactly one copy, every other
  connection gets none.
\<close>

theorem publish_fanout:
  assumes "distinct (connectedClients w)" and "JSON_stringify e ev = Some json"
  shows "broadcastToClients e ev w =
           (None, w\<lparr>sent := sent w @ map (\<lambda>c. (c, json)) (receivers w),
                    pending := pending w @ map Close (failing w),
                    stringified := stringified w @ [ev]\<rparr>)
         \<and> (\<forall>c. copies c (map (\<lambda>c. (c, json)) (receivers w)) =
                (if c \<in> set (connectedClients w) \<and> readyState w c = 1 then 1 else 0))"
proof -
  have "distinct (receivers w)"
    using assms(1) by (simp add: receivers_def)
  then have "\<forall>c. copies c (map (\<lambda>c. (c, json)) (receivers w)) =
                (if c \<in> set (receivers w) then 1 else 0)"
    by (simp add: copies_map)
  moreover have "\<And>c. c \<in> set (receivers w) \<longleftrightarrow> c \<in> set (connectedClients w) \<and> readyState w c = 1"
    by (simp add: receivers_def)
  ultimately show ?thesis
    using assms(2) by (simp add: broadcastToClients_eq)
qed

theorem publish_fanout_witness:
  "distinct (connectedClients three_clients)
   \<and> JSON_stringify scenario_env (Alert (JStr ''D1'') (JStr ''fever'') 5) = Some ''alert''
   \<and> receivers three_clients = [1, 3]
   \<and> broadcastToClients scenario_env (Alert (JStr ''D1'') (JStr ''fever'') 5) three_clients =
       (None, three_clients\<lparr>sent := [(1, ''alert''), (3, ''alert'')],
                           stringified := [Alert (JStr ''D1'') (JStr ''fever'') 5]\<rparr>)
   \<and> copies 1 [(1, ''alert''), (3, ''alert'')] = 1
   \<and> copies 2 [(1, ''alert''), (3, ''alert'')] = 0"
proof -
  have h1: "distinct (connectedClients three_clients)"
    by (simp add: scenario_defs)
  have h2: "JSON_stringify scenario_env (Alert (JStr ''D1'') (JStr ''fever'') 5) = Some ''alert''"
    by (simp add: scenario_defs JSON_stringify_def)
  have r: "receivers three_clients = [1, 3]"
    by (simp add: scenario_defs receivers_def)
  have f: "failing three_clients = []"
    by (simp add: scenario_defs receivers_def failing_def)
  show ?thesis
    using h1 h2 r publish_fanout[OF h1 h2, of ]
    unfolding r f by (simp add: scenario_defs)
qed

text \<open>
  Claim C5. \<^verbatim>\<open>send\<close> does not throw when the write to a peer fails, so the loop of
  \<^verbatim>\<open>broadcastToClients\<close> goes on: the call returns without exception, it has handed the
  serialized event to every open subscriber, the failing one included, and it leaves
  the subscriber set to the handlers. The library has scheduled the close event of
  every subscriber whose write failed; once the scheduled events are delivered, the
  close handler has removed the failing subscriber from the set.
\<close>

theorem send_failure_contained:
  assumes "send_fails e ev w c"
  shows "broadcastToClients e ev w =
           (None, w\<lparr>sent := sent w @ map (\<lambda>c'. (c', JSON_text e ev)) (receivers w),
                    pending := pending w @ map Close (failing w),
                    stringified := stringified w @ [ev]\<rparr>)
       \<and> (\<forall>c'. open_member c' w \<longrightarrow>
             (c', JSON_text e ev) \<in> set (drop (length (sent w))
                                       (sent (snd (broadcastToClients e ev w)))))
       \<and> c \<in> set (connectedClients (snd (broadcastToClients e ev w)))
       \<and> Close c \<in> set (pending (snd (broadcastToClients e ev w)))
       \<and> c \<notin> set (connectedClients (run e (snd (broadcastToClients e ev w))
                                        (pending (snd (broadcastToClients e ev w)))))"
proof -
  let ?w' = "w\<lparr>sent := sent w @ map (\<lambda>c'. (c', JSON_text e ev)) (receivers w),
               pending := pending w @ map Close (failing w),
               stringified := stringified w @ [ev]\<rparr>"
  have s: "JSON_stringify e ev = Some (JSON_text e ev)"
    using assms JSON_stringify_Some[of e ev] by (auto simp: send_fails_def)
  have b: "broadcastToClients e ev w = (None, ?w')"
    by (simp add: broadcastToClients_eq s)
  have f: "c \<in> set (failing w)"
    using assms by (simp add: send_fails_def)
  have 2: "(c', JSON_text e ev) \<in> set (drop (length (sent w)) (sent ?w'))"
    if "open_member c' w" for c'
    using that by (simp add: open_member_def receivers_def)
  have 3: "c \<in> set (connectedClients ?w')"
    using f by (simp add: failing_def receivers_def)
  have 4: "Close c \<in> set (pending ?w')"
    using f by simp
  have "run e ?w' (pending ?w') =
          run e (run e ?w' (pending w)) (map Close (failing w))"
    by (simp add: run_def)
  then have 5: "c \<notin> set (connectedClients (run e ?w' (pending ?w')))"
    using f by (simp only: run_Close) simp
  show ?thesis
    unfolding b using 2 3 4 5 by simp
qed

theorem send_failure_contained_witness:
  "send_fails scenario_env (Alert (JStr ''D1'') (JStr ''fever'') 5) third_write_fails 3
   \<and> connectedClients third_write_fails = [1, 2, 3]
   \<and> broadcastToClients scenario_env (Alert (JStr ''D1'') (JStr ''fever'') 5)
        third_write_fails =
       (None, third_write_fails\<lparr>sent := [(1, ''alert''), (3, ''alert'')],
                               pending := [Close 3],
                               stringified := [Alert (JStr ''D1'') (JStr ''fever'') 5]\<rparr>)
   \<and> connectedClients (run scenario_env
        (third_write_fails\<lparr>sent := [(1, ''alert''), (3, ''alert'')],
                           pending := [Close 3],
                           stringified := [Alert (JStr ''D1'') (JStr ''fever'') 5]\<rparr>)
        [Close 3]) = [1, 2]"
proof -
  have h: "send_fails scenario_env (Alert (JStr ''D1'') (JStr ''fever'') 5) third_write_fails 3"
    by (simp add: send_fails_def eval_defs)
  have r: "receivers third_write_fails = [1, 3]"
    by (simp add: eval_defs)
  have f: "failing third_write_fails = [3]"
    by (simp add: eval_defs)
  have b: "broadcastToClients scenario_env (Alert (JStr ''D1'') (JStr ''fever'') 5)
        third_write_fails =
       (None, third_write_fails\<lparr>sent := [(1, ''alert''), (3, ''alert'')],
                               pending := [Close 3],
                               stringified := [Alert (JStr ''D1'') (JStr ''fever'') 5]\<rparr>)"
    using send_failure_contained[OF h] unfolding r f
    by (simp add: scenario_defs third_write_fails_def)
  show ?thesis
    using h b by (simp add: eval_defs)
qed

subsection \<open>Closing a connection\<close>

text \<open>
  Claim C9. A second run of the close handler for the same connection changes nothing
  but the log, which gets one more line; the same holds for the close handler of any
  connection that is not in the set.
\<close>

theorem onClose_idempotent:
  "onClose c (onClose c w) =
     (onClose c w)\<lparr>console := console (onClose c w) @ [LogDisconnected (clientId w c)]\<rparr>
   \<and> (c \<notin> set (connectedClients w) \<longrightarrow>
        onClose c w = w\<lparr>console := console w @ [LogDisconnected (clientId w c)]\<rparr>)"
  by (simp add: onClose_def console_log_def Set_delete_def Let_def)

theorem onClose_idempotent_witness:
  "3 \<notin> set (connectedClients two_clients)
   \<and> onClose 3 two_clients = two_clients\<lparr>console := [LogDisconnected 0]\<rparr>
   \<and> onClose 1 (onClose 1 two_clients) =
       two_clients\<lparr>connectedClients := [2], console := [LogDisconnected 0, LogDisconnected 0]\<rparr>"
  using onClose_idempotent[of 3 two_clients] onClose_idempotent[of 1 two_clients]
  by (simp add: scenario_defs onClose_def console_log_def Set_delete_def)

subsection \<open>Temperature frames\<close>

lemma js_prop_not_nullish: "js_prop m k = JStr s \<Longrightarrow> \<not> nullish m"
  by (cases m) simp_all

lemma Map_get_Map_set: "js_primitive k \<Longrightarrow> Map_get (Map_set m k v) k = Some v"
  by (induction m) (auto simp: Map_get_def)

lemma Map_get_Map_set_other:
  "k' \<noteq> k \<Longrightarrow> Map_get (Map_set m k v) k' = Map_get m k'"
  by (induction m) (auto simp: Map_get_def)

lemma message_try_temperature:
  assumes "JSON_parse e data = Some m" and "js_prop m ''type'' = JStr ''temperature''"
  shows "message_try e c data w = temperature_branch e m w"
  using assms js_prop_not_nullish[OF assms(2)] by (simp add: message_try_def)

lemma onMessage_temperature_registry:
  assumes "JSON_parse e data = Some m" and "js_prop m ''type'' = JStr ''temperature''"
  shows "deviceLatestData (onMessage e c data w) =
           Map_set (deviceLatestData w) (js_prop m ''deviceId'') (stored_reading e m w)"
  by (simp add: onMessage_def message_try_temperature[OF assms] temperature_branch_eq
      console_log_def split: option.splits)

lemma onMessage_temperature_sent:
  assumes "JSON_parse e data = Some m" and "js_prop m ''type'' = JStr ''temperature''"
  shows "sent (onMessage e c data w) = sent w @
           (if log_throws e m then []
            else case JSON_stringify e
                        (TemperatureUpdate (stored_reading e m w) (broadcast_time e m w)) of
                   None \<Rightarrow> []
                 | Some json \<Rightarrow> map (\<lambda>c'. (c', json)) (receivers w))"
  by (simp add: onMessage_def message_try_temperature[OF assms] temperature_branch_eq
      console_log_def log_throws_def split: option.splits)

lemma scalar_fields_log: "scalar_fields m \<Longrightarrow> \<not> log_throws e m"
  by (simp add: scalar_fields_def log_throws_def toString_exn_primitive)

lemma scalar_fields_stringify:
  assumes "scalar_fields m"
  shows "JSON_stringify e (TemperatureUpdate (stored_reading e m w) t) =
           Some (JSON_text e (TemperatureUpdate (stored_reading e m w) t))"
proof -
  have "msg_depth (TemperatureUpdate (stored_reading e m w) t) \<le> 2"
    using assms by (simp add: scalar_fields_def stored_reading_def js_depth_primitive)
  then show ?thesis
    by (rule JSON_stringify_flat)
qed

text \<open>
  A field that is nested deeper than the engine converts makes the log line throw
  before anything is sent.
\<close>

lemma deep_field_no_broadcast:
  assumes "JSON_parse e data = Some m" and "js_prop m ''type'' = JStr ''temperature''"
    and "js_primitive (js_prop m ''deviceId'')"
    and "js_prop m ''ambientTemp'' = nest (Suc (join_limit e)) v"
  shows "sent (onMessage e c data w) = sent w"
proof -
  have a: "toString_exn (join_limit e) (js_prop m ''ambientTemp'') = Some RangeError"
    unfolding assms(4) by (rule toString_exn_nest)
  have d: "toString_exn (join_limit e) (js_prop m ''deviceId'') = None"
    using assms(3) by (rule toString_exn_primitive)
  have "log_throws e m"
    unfolding log_throws_def a d by simp
  then show ?thesis
    by (simp add: onMessage_temperature_sent[OF assms(1,2)])
qed

lemma api_temperature_latest_GetLatest:
  "d \<noteq> [] \<Longrightarrow> api_temperature_latest (Some d) w =
     (case GetLatest w d of Some data \<Rightarrow> Reading data | None \<Rightarrow> DeviceNotFound)"
  by (simp add: api_temperature_latest_def GetLatest_def)

lemma GetLatest_temperature:
  assumes "JSON_parse e data = Some m" and "js_prop m ''type'' = JStr ''temperature''"
    and "js_prop m ''deviceId'' = JStr dev"
  shows "GetLatest (onMessage e c data w) dev = Some (stored_reading e m w)"
  using onMessage_temperature_registry[OF assms(1,2), of c w] assms(3)
  by (simp add: GetLatest_def Map_get_Map_set)

text \<open>
  Claim C10, as stated, fails for a frame whose \<^verbatim>\<open>deviceId\<close> is not a string. The frame
  with \<^verbatim>\<open>deviceId\<close> 42 is stored under the number 42 and broadcast, and the lookup of the
  registry with the string \<^verbatim>\<open>42\<close> finds nothing.
\<close>

theorem numeric_deviceId_not_found:
  \<open>JSON_parse scenario_env
     ''{"type":"temperature","deviceId":42,"ambientTemp":24.5,"objectTemp":32.1}'' =
     Some (JObj [(''type'', JStr ''temperature''), (''deviceId'', JNum 42),
            (''ambientTemp'', JNum 24.5), (''objectTemp'', JNum 32.1)])
   \<and> sent (run scenario_env world0 [Connection 1, Message 1
        ''{"type":"temperature","deviceId":42,"ambientTemp":24.5,"objectTemp":32.1}'']) =
       [(1, ''temperature-update'')]
   \<and> stringified (run scenario_env world0 [Connection 1, Message 1
        ''{"type":"temperature","deviceId":42,"ambientTemp":24.5,"objectTemp":32.1}'']) =
       [TemperatureUpdate \<lparr>deviceId = JNum 42, ambientTemp = JNum 24.5,
          objectTemp = JNum 32.1, timestamp = JNum 1700000000001\<rparr> 1700000000002]
   \<and> deviceLatestData (run scenario_env world0 [Connection 1, Message 1
        ''{"type":"temperature","deviceId":42,"ambientTemp":24.5,"objectTemp":32.1}'']) =
       [(JNum 42, \<lparr>deviceId = JNum 42, ambientTemp = JNum 24.5,
          objectTemp = JNum 32.1, timestamp = JNum 1700000000001\<rparr>)]
   \<and> GetLatest (run scenario_env world0 [Connection 1, Message 1
        ''{"type":"temperature","deviceId":42,"ambientTemp":24.5,"objectTemp":32.1}''])
        ''42'' = None\<close>
  by (simp add: eval_defs)

text \<open>
  Claim C10, amended to frames whose \<^verbatim>\<open>deviceId\<close> is a string. The registry holds the
  reading built from the frame whatever happens later in the handler. The handler
  sends nothing when the log line or \<^verbatim>\<open>JSON.stringify\<close> throws; otherwise every message
  it sends is the serialized \<^verbatim>\<open>temperature-update\<close> whose data is that same reading, one
  to each open client. \<open>GetLatest\<close> of the \<^verbatim>\<open>deviceId\<close> returns the reading afterwards.
  When the log line does not throw, the broadcast starts from a world whose registry
  is already the final one and in which nothing has been sent yet.
\<close>

theorem update_before_broadcast:
  assumes "JSON_parse e data = Some m" and "js_prop m ''type'' = JStr ''temperature''"
    and "js_prop m ''deviceId'' = JStr dev"
  shows "deviceLatestData (onMessage e c data w) =
           Map_set (deviceLatestData w) (JStr dev) (stored_reading e m w)
       \<and> sent (onMessage e c data w) = sent w @
           (if log_throws e m then []
            else case JSON_stringify e
                        (TemperatureUpdate (stored_reading e m w) (broadcast_time e m w)) of
                   None \<Rightarrow> []
                 | Some json \<Rightarrow> map (\<lambda>c'. (c', json)) (receivers w))
       \<and> GetLatest (onMessage e c data w) dev = Some (stored_reading e m w)
       \<and> (\<not> log_throws e m \<longrightarrow>
            (\<exists>w4. deviceLatestData w4 = deviceLatestData (onMessage e c data w)
               \<and> sent w4 = sent w
               \<and> message_try e c data w =
                   (case broadcastToClients e
                      (TemperatureUpdate (stored_reading e m w) (broadcast_time e m w)) w4 of
                      (Some x, w5) \<Rightarrow> (Some x, w5)
                    | (None, w5) \<Rightarrow>
                        (None, storeTemperatureReading (js_prop m ''deviceId'')
                           (js_prop m ''ambientTemp'') (js_prop m ''objectTemp'') w5))))"
proof (intro conjI impI)
  show "deviceLatestData (onMessage e c data w) =
           Map_set (deviceLatestData w) (JStr dev) (stored_reading e m w)"
    using onMessage_temperature_registry[OF assms(1,2), of c w] assms(3) by simp
  show "sent (onMessage e c data w) = sent w @
           (if log_throws e m then []
            else case JSON_stringify e
                        (TemperatureUpdate (stored_reading e m w) (broadcast_time e m w)) of
                   None \<Rightarrow> []
                 | Some json \<Rightarrow> map (\<lambda>c'. (c', json)) (receivers w))"
    by (rule onMessage_temperature_sent[OF assms(1,2)])
  show "GetLatest (onMessage e c data w) dev = Some (stored_reading e m w)"
    by (rule GetLatest_temperature[OF assms])
  show "\<exists>w4. deviceLatestData w4 = deviceLatestData (onMessage e c data w)
               \<and> sent w4 = sent w
               \<and> message_try e c data w =
                   (case broadcastToClients e
                      (TemperatureUpdate (stored_reading e m w) (broadcast_time e m w)) w4 of
                      (Some x, w5) \<Rightarrow> (Some x, w5)
                    | (None, w5) \<Rightarrow>
                        (None, storeTemperatureReading (js_prop m ''deviceId'')
                           (js_prop m ''ambientTemp'') (js_prop m ''objectTemp'') w5))"
    if nt: "\<not> log_throws e m"
  proof -
    let ?w4 = "w\<lparr>deviceLatestData := Map_set (deviceLatestData w) (js_prop m ''deviceId'')
                     (stored_reading e m w),
                  console := console w @ [LogTemperature (js_prop m ''deviceId'')
                     (js_prop m ''ambientTemp'') (js_prop m ''objectTemp'')],
                  ticks := Suc (if truthy (js_prop m ''timestamp'') then ticks w
                                else Suc (ticks w))\<rparr>"
    have "deviceLatestData ?w4 = deviceLatestData (onMessage e c data w)"
      by (simp add: onMessage_temperature_registry[OF assms(1,2)])
    moreover have "sent ?w4 = sent w"
      by simp
    moreover have "temperature_branch e m w =
                   (case broadcastToClients e
                      (TemperatureUpdate (stored_reading e m w) (broadcast_time e m w)) ?w4 of
                      (Some x, w5) \<Rightarrow> (Some x, w5)
                    | (None, w5) \<Rightarrow>
                        (None, storeTemperatureReading (js_prop m ''deviceId'')
                           (js_prop m ''ambientTemp'') (js_prop m ''objectTemp'') w5))"
    proof (cases "truthy (js_prop m ''timestamp'')")
      case True
      then show ?thesis
        using nt
        by (simp add: temperature_branch_def Date_now_def console_log_def
            stored_reading_def log_throws_def broadcast_time_def Let_def)
    next
      case False
      then show ?thesis
        using nt
        by (simp add: temperature_branch_def Date_now_def console_log_def
            stored_reading_def log_throws_def broadcast_time_def Let_def)
    qed
    ultimately show ?thesis
      unfolding message_try_temperature[OF assms(1,2)] by blast
  qed
qed

theorem update_before_broadcast_witness:
  \<open>deviceLatestData (onMessage scenario_env 1
        ''{"type":"temperature","deviceId":"D1","ambientTemp":24.5,"objectTemp":32.1}''
        two_clients) =
       [(JStr ''D1'', \<lparr>deviceId = JStr ''D1'', ambientTemp = JNum 24.5, objectTemp = JNum 32.1,
             timestamp = JNum 1700000000000\<rparr>)]
   \<and> stringified (onMessage scenario_env 1
        ''{"type":"temperature","deviceId":"D1","ambientTemp":24.5,"objectTemp":32.1}''
        two_clients) =
       [TemperatureUpdate \<lparr>deviceId = JStr ''D1'', ambientTemp = JNum 24.5,
           objectTemp = JNum 32.1, timestamp = JNum 1700000000000\<rparr> 1700000000001]
   \<and> sent (onMessage scenario_env 1
        ''{"type":"temperature","deviceId":"D1","ambientTemp":24.5,"objectTemp":32.1}''
        two_clients) =
       [(1, scenario_text (TemperatureUpdate \<lparr>deviceId = JStr ''D1'',
            ambientTemp = JNum 24.5, objectTemp = JNum 32.1,
            timestamp = JNum 1700000000000\<rparr> 1700000000001)),
        (2, scenario_text (TemperatureUpdate \<lparr>deviceId = JStr ''D1'',
            ambientTemp = JNum 24.5, objectTemp = JNum 32.1,
            timestamp = JNum 1700000000000\<rparr> 1700000000001))]
   \<and> GetLatest (onMessage scenario_env 1
        ''{"type":"temperature","deviceId":"D1","ambientTemp":24.5,"objectTemp":32.1}''
        two_clients) ''D1'' =
       Some \<lparr>deviceId = JStr ''D1'', ambientTemp = JNum 24.5, objectTemp = JNum 32.1,
             timestamp = JNum 1700000000000\<rparr>\<close>
proof -
  let ?d = \<open>''{"type":"temperature","deviceId":"D1","ambientTemp":24.5,"objectTemp":32.1}''\<close>
  let ?m = "JObj [(''type'', JStr ''temperature''), (''deviceId'', JStr ''D1''),
               (''ambientTemp'', JNum 24.5), (''objectTemp'', JNum 32.1)]"
  have p: "JSON_parse scenario_env ?d = Some ?m"
    by (simp add: scenario_defs)
  have t: "js_prop ?m ''type'' = JStr ''temperature''" by simp
  have i: "js_prop ?m ''deviceId'' = JStr ''D1''" by simp
  show ?thesis
    using update_before_broadcast[OF p t i, of 1 two_clients]
    by (simp add: eval_defs)
qed

text \<open>
  Claim C3. Two temperature frames for the same device with timestamps \<open>t1 < t2\<close>: after
  both are handled, \<open>GetLatest\<close> returns the reading of the frame handled last, in either
  order of arrival, so the older timestamp wins when it arrives last. The reading of a
  frame carries the fields of the frame and its timestamp, or the time of receipt when
  the timestamp is 0. Storing under a string key replaces whatever the registry held
  for that key.
\<close>

theorem last_write_wins:
  assumes "JSON_parse e d1 = Some m1" and "JSON_parse e d2 = Some m2"
    and "js_prop m1 ''type'' = JStr ''temperature''"
    and "js_prop m2 ''type'' = JStr ''temperature''"
    and "js_prop m1 ''deviceId'' = JStr dev" and "js_prop m2 ''deviceId'' = JStr dev"
    and "js_prop m1 ''timestamp'' = JNum t1" and "js_prop m2 ''timestamp'' = JNum t2"
    and "t1 < t2"
  shows "GetLatest (onMessage e c2 d2 (onMessage e c1 d1 w)) dev =
           Some \<lparr>deviceId = JStr dev, ambientTemp = js_prop m2 ''ambientTemp'',
                 objectTemp = js_prop m2 ''objectTemp'',
                 timestamp = (if t2 = 0 then JNum (clock e (ticks (onMessage e c1 d1 w)))
                              else JNum t2)\<rparr>
       \<and> GetLatest (onMessage e c1 d1 (onMessage e c2 d2 w)) dev =
           Some \<lparr>deviceId = JStr dev, ambientTemp = js_prop m1 ''ambientTemp'',
                 objectTemp = js_prop m1 ''objectTemp'',
                 timestamp = (if t1 = 0 then JNum (clock e (ticks (onMessage e c2 d2 w)))
                              else JNum t1)\<rparr>
       \<and> Map_get (Map_set (deviceLatestData w) (JStr dev) r) (JStr dev) = Some r"
proof -
  have "GetLatest (onMessage e c2 d2 (onMessage e c1 d1 w)) dev =
          Some (stored_reading e m2 (onMessage e c1 d1 w))"
    using assms by (simp add: GetLatest_temperature)
  moreover have "GetLatest (onMessage e c1 d1 (onMessage e c2 d2 w)) dev =
          Some (stored_reading e m1 (onMessage e c2 d2 w))"
    using assms by (simp add: GetLatest_temperature)
  ultimately show ?thesis
    using assms by (simp add: stored_reading_def Map_get_Map_set)
qed

theorem last_write_wins_witness:
  \<open>(1000::real) < 2000
   \<and> GetLatest
        (onMessage scenario_env 2
           ''{"type":"temperature","deviceId":"D1","ambientTemp":26,"objectTemp":37,"timestamp":2000}''
        (onMessage scenario_env 1
           ''{"type":"temperature","deviceId":"D1","ambientTemp":25,"objectTemp":36,"timestamp":1000}''
           world0)) ''D1'' =
       Some \<lparr>deviceId = JStr ''D1'', ambientTemp = JNum 26, objectTemp = JNum 37,
             timestamp = JNum 2000\<rparr>
   \<and> GetLatest
        (onMessage scenario_env 1
           ''{"type":"temperature","deviceId":"D1","ambientTemp":25,"objectTemp":36,"timestamp":1000}''
        (onMessage scenario_env 2
           ''{"type":"temperature","deviceId":"D1","ambientTemp":26,"objectTemp":37,"timestamp":2000}''
           world0)) ''D1'' =
       Some \<lparr>deviceId = JStr ''D1'', ambientTemp = JNum 25, objectTemp = JNum 36,
             timestamp = JNum 1000\<rparr>\<close>
proof -
  let ?d1 = \<open>''{"type":"temperature","deviceId":"D1","ambientTemp":25,"objectTemp":36,"timestamp":1000}''\<close>
  let ?d2 = \<open>''{"type":"temperature","deviceId":"D1","ambientTemp":26,"objectTemp":37,"timestamp":2000}''\<close>
  let ?m1 = "JObj [(''type'', JStr ''temperature''), (''deviceId'', JStr ''D1''),
               (''ambientTemp'', JNum 25), (''objectTemp'', JNum 36), (''timestamp'', JNum 1000)]"
  let ?m2 = "JObj [(''type'', JStr ''temperature''), (''deviceId'', JStr ''D1''),
               (''ambientTemp'', JNum 26), (''objectTemp'', JNum 37), (''timestamp'', JNum 2000)]"
  have p1: "JSON_parse scenario_env ?d1 = Some ?m1"
    by (simp add: scenario_defs)
  have p2: "JSON_parse scenario_env ?d2 = Some ?m2"
    by (simp add: scenario_defs)
  have t1: "js_prop ?m1 ''type'' = JStr ''temperature''" by simp
  have t2: "js_prop ?m2 ''type'' = JStr ''temperature''" by simp
  have i1: "js_prop ?m1 ''deviceId'' = JStr ''D1''" by simp
  have i2: "js_prop ?m2 ''deviceId'' = JStr ''D1''" by simp
  have s1: "js_prop ?m1 ''timestamp'' = JNum 1000" by simp
  have s2: "js_prop ?m2 ''timestamp'' = JNum 2000" by simp
  have o2: "(1000::real) < 2000" by simp
  show ?thesis
    using last_write_wins[OF p1 p2 t1 t2 i1 i2 s1 s2 o2, of 2 1 world0] by simp
qed

text \<open>
  Claim C7, as stated, fails for a timestamp that is the number 0: \<^verbatim>\<open>||\<close> takes the
  right operand for every falsy left operand, and the stored timestamp is the time of
  receipt.
\<close>

theorem timestamp_zero_replaced:
  \<open>JSON_parse scenario_env
     ''{"type":"temperature","deviceId":"D1","ambientTemp":25,"objectTemp":36,"timestamp":0}'' =
     Some (JObj [(''type'', JStr ''temperature''), (''deviceId'', JStr ''D1''),
            (''ambientTemp'', JNum 25), (''objectTemp'', JNum 36), (''timestamp'', JNum 0)])
   \<and> GetLatest (run scenario_env world0 [Connection 1, Message 1
        ''{"type":"temperature","deviceId":"D1","ambientTemp":25,"objectTemp":36,"timestamp":0}''])
        ''D1'' =
       Some \<lparr>deviceId = JStr ''D1'', ambientTemp = JNum 25, objectTemp = JNum 36,
             timestamp = JNum 1700000000001\<rparr>\<close>
  by (simp add: eval_defs)

text \<open>
  Claim C7, amended. The stored reading of a temperature frame with a string
  \<^verbatim>\<open>deviceId\<close> takes its timestamp from the frame when the field is a number other than
  0, and takes the value of \<^verbatim>\<open>Date.now()\<close> at receipt when the field is absent or is 0.
\<close>

theorem timestamp_default:
  assumes "JSON_parse e data = Some m" and "js_prop m ''type'' = JStr ''temperature''"
    and "js_prop m ''deviceId'' = JStr dev"
  shows "\<exists>r. GetLatest (onMessage e c data w) dev = Some r
       \<and> (\<forall>n. js_prop m ''timestamp'' = JNum n \<and> n \<noteq> 0 \<longrightarrow> timestamp r = JNum n)
       \<and> (js_prop m ''timestamp'' = JNum 0 \<longrightarrow> timestamp r = JNum (clock e (ticks w)))
       \<and> (js_prop m ''timestamp'' = JUndefined \<longrightarrow> timestamp r = JNum (clock e (ticks w)))"
  using GetLatest_temperature[OF assms, of c w]
  by (simp add: stored_reading_def)

theorem timestamp_default_witness:
  \<open>GetLatest (onMessage scenario_env 1
        ''{"type":"temperature","deviceId":"D1","ambientTemp":25,"objectTemp":36,"timestamp":1000}''
        world0) ''D1'' =
       Some \<lparr>deviceId = JStr ''D1'', ambientTemp = JNum 25, objectTemp = JNum 36,
             timestamp = JNum 1000\<rparr>
   \<and> GetLatest (onMessage scenario_env 1
        ''{"type":"temperature","deviceId":"D1","ambientTemp":24.5,"objectTemp":32.1}''
        world0) ''D1'' =
       Some \<lparr>deviceId = JStr ''D1'', ambientTemp = JNum 24.5, objectTemp = JNum 32.1,
             timestamp = JNum (clock scenario_env (ticks world0))\<rparr>\<close>
proof -
  let ?d1 = \<open>''{"type":"temperature","deviceId":"D1","ambientTemp":25,"objectTemp":36,"timestamp":1000}''\<close>
  let ?d2 = \<open>''{"type":"temperature","deviceId":"D1","ambientTemp":24.5,"objectTemp":32.1}''\<close>
  let ?m1 = "JObj [(''type'', JStr ''temperature''), (''deviceId'', JStr ''D1''),
               (''ambientTemp'', JNum 25), (''objectTemp'', JNum 36), (''timestamp'', JNum 1000)]"
  let ?m2 = "JObj [(''type'', JStr ''temperature''), (''deviceId'', JStr ''D1''),
               (''ambientTemp'', JNum 24.5), (''objectTemp'', JNum 32.1)]"
  have p1: "JSON_parse scenario_env ?d1 = Some ?m1"
    by (simp add: scenario_defs)
  have p2: "JSON_parse scenario_env ?d2 = Some ?m2"
    by (simp add: scenario_defs)
  have t1: "js_prop ?m1 ''type'' = JStr ''temperature''" by simp
  have t2: "js_prop ?m2 ''type'' = JStr ''temperature''" by simp
  have i1: "js_prop ?m1 ''deviceId'' = JStr ''D1''" by simp
  have i2: "js_prop ?m2 ''deviceId'' = JStr ''D1''" by simp
  have a: "GetLatest (onMessage scenario_env 1 ?d1 world0) ''D1'' =
       Some \<lparr>deviceId = JStr ''D1'', ambientTemp = JNum 25, objectTemp = JNum 36,
             timestamp = JNum 1000\<rparr>"
    using timestamp_default[OF p1 t1 i1, of 1 world0] by (simp add: eval_defs)
  have b: "GetLatest (onMessage scenario_env 1 ?d2 world0) ''D1'' =
       Some \<lparr>deviceId = JStr ''D1'', ambientTemp = JNum 24.5, objectTemp = JNum 32.1,
             timestamp = JNum (clock scenario_env (ticks world0))\<rparr>"
    using timestamp_default[OF p2 t2 i2, of 1 world0] by (simp add: eval_defs)
  show ?thesis
    using a b by simp
qed

text \<open>
  Claim C1, as stated, fails: the temperature branch checks no field. The frame of the
  third scenario, without \<^verbatim>\<open>ambientTemp\<close> and \<^verbatim>\<open>objectTemp\<close>, creates the registry entry
  of device D2 and is broadcast to both clients.
\<close>

theorem missing_fields_stored_and_broadcast:
  \<open>JSON_parse scenario_env ''{"type":"temperature","deviceId":"D2"}'' =
     Some (JObj [(''type'', JStr ''temperature''), (''deviceId'', JStr ''D2'')])
   \<and> GetLatest (run scenario_env world0 [Connection 1, Connection 2]) ''D2'' = None
   \<and> GetLatest (run scenario_env world0 [Connection 1, Connection 2,
        Message 1 ''{"type":"temperature","deviceId":"D2"}'']) ''D2'' =
       Some \<lparr>deviceId = JStr ''D2'', ambientTemp = JUndefined, objectTemp = JUndefined,
             timestamp = JNum 1700000000002\<rparr>
   \<and> sent (run scenario_env world0 [Connection 1, Connection 2]) = []
   \<and> sent (run scenario_env world0 [Connection 1, Connection 2,
        Message 1 ''{"type":"temperature","deviceId":"D2"}'']) =
       [(1, ''temperature-update''), (2, ''temperature-update'')]\<close>
  by (simp add: eval_defs)

text \<open>
  Claim C1, amended. A temperature frame is handled whether or not \<^verbatim>\<open>deviceId\<close>,
  \<^verbatim>\<open>ambientTemp\<close> or \<^verbatim>\<open>objectTemp\<close> is present: the subscriber set is unchanged, the
  registry gets the reading under the key \<^verbatim>\<open>message.deviceId\<close> with \<^verbatim>\<open>undefined\<close> for
  every absent field, \<open>GetLatest\<close> of a string \<^verbatim>\<open>deviceId\<close> returns that reading, and
  when each of the four fields is absent or a scalar, the reading is broadcast to
  every open client.
\<close>

theorem missing_fields_not_checked:
  assumes "JSON_parse e data = Some m" and "js_prop m ''type'' = JStr ''temperature''"
  shows "connectedClients (onMessage e c data w) = connectedClients w
       \<and> deviceLatestData (onMessage e c data w) =
           Map_set (deviceLatestData w) (js_prop m ''deviceId'') (stored_reading e m w)
       \<and> (\<forall>dev. js_prop m ''deviceId'' = JStr dev \<longrightarrow>
             GetLatest (onMessage e c data w) dev = Some (stored_reading e m w))
       \<and> (scalar_fields m \<longrightarrow>
             sent (onMessage e c data w) = sent w @
               map (\<lambda>c'. (c', JSON_text e
                     (TemperatureUpdate (stored_reading e m w) (broadcast_time e m w))))
                   (receivers w))"
proof -
  have "sent (onMessage e c data w) = sent w @
               map (\<lambda>c'. (c', JSON_text e
                     (TemperatureUpdate (stored_reading e m w) (broadcast_time e m w))))
                   (receivers w)"
    if "scalar_fields m"
    using scalar_fields_log[OF that, of e]
    by (simp add: onMessage_temperature_sent[OF assms] scalar_fields_stringify[OF that])
  then show ?thesis
    using onMessage_temperature_registry[OF assms, of c w] GetLatest_temperature[OF assms, of _ c w]
    by simp
qed

theorem missing_fields_not_checked_witness:
  \<open>scalar_fields (JObj [(''type'', JStr ''temperature''), (''deviceId'', JStr ''D2'')])
   \<and> receivers two_clients = [1, 2]
   \<and> connectedClients (onMessage scenario_env 1 ''{"type":"temperature","deviceId":"D2"}''
        two_clients) = [1, 2]
   \<and> deviceLatestData (onMessage scenario_env 1 ''{"type":"temperature","deviceId":"D2"}''
        two_clients) =
       [(JStr ''D2'', \<lparr>deviceId = JStr ''D2'', ambientTemp = JUndefined,
           objectTemp = JUndefined, timestamp = JNum 1700000000000\<rparr>)]
   \<and> sent (onMessage scenario_env 1 ''{"type":"temperature","deviceId":"D2"}'' two_clients) =
       [(1, ''temperature-update''), (2, ''temperature-update'')]\<close>
proof -
  let ?d = \<open>''{"type":"temperature","deviceId":"D2"}''\<close>
  let ?m = "JObj [(''type'', JStr ''temperature''), (''deviceId'', JStr ''D2'')]"
  have p: "JSON_parse scenario_env ?d = Some ?m"
    by (simp add: scenario_defs)
  have t: "js_prop ?m ''type'' = JStr ''temperature''" by simp
  show ?thesis
    using missing_fields_not_checked[OF p t, of 1 two_clients]
    by (simp add: eval_defs scalar_fields_def)
qed

subsection \<open>Handshake frames\<close>




subsection \<open>Membership in the subscriber set\<close>

lemma received_append [simp]: "received c (xs @ ys) = received c xs @ received c ys"
  by (simp add: received_def)

lemma received_Nil [simp]: "received c [] = []"
  by (simp add: received_def)

lemma received_broadcast:
  "c \<in> set cs \<Longrightarrow> subseq [j] (received c (map (\<lambda>c'. (c', j)) cs))"
  by (induction cs) (auto simp: received_def)

lemma step_connectedClients:
  "\<not> removes c ev \<Longrightarrow> c \<in> set (connectedClients w) \<Longrightarrow> c \<in> set (connectedClients (step e w ev))"
  by (cases ev)
     (auto simp: onConnection_def onClose_def onError_def console_log_def Date_now_def
        Set_add_def Set_delete_def api_temperature_alert_def broadcastToClients_eq Let_def
        split: option.splits)

lemma run_connectedClients:
  "\<forall>ev\<in>set evs. \<not> removes c ev \<Longrightarrow> c \<in> set (connectedClients w) \<Longrightarrow>
     c \<in> set (connectedClients (run e w evs))"
  unfolding run_def
  by (induction evs arbitrary: w) (simp_all add: step_connectedClients)

lemma delivered_all_refl: "sent w' = sent w \<Longrightarrow> stringified w' = stringified w \<Longrightarrow> delivered_all e c w w'"
  by (simp add: delivered_all_def)

lemma delivered_all_ack:
  "\<not> is_broadcast a \<Longrightarrow> sent w' = sent w @ ss \<Longrightarrow> stringified w' = stringified w @ [a] \<Longrightarrow>
     delivered_all e c w w'"
  by (simp add: delivered_all_def)

lemma delivered_all_broadcast:
  assumes "c \<in> set (receivers w)"
    and "sent w' = sent w @ map (\<lambda>c'. (c', JSON_text e b)) (receivers w)"
    and "stringified w' = stringified w @ [b]"
  shows "delivered_all e c w w'"
proof -
  have "subseq (map (JSON_text e) (filter is_broadcast [b]))
          (received c (map (\<lambda>c'. (c', JSON_text e b)) (receivers w)))"
    using received_broadcast[OF assms(1), of "JSON_text e b"] by simp
  then show ?thesis
    unfolding delivered_all_def using assms(2,3) by blast
qed

lemma delivered_all_trans:
  assumes "delivered_all e c w w'" and "delivered_all e c w' w''"
  shows "delivered_all e c w w''"
proof -
  obtain ss ms where 1: "sent w' = sent w @ ss" "stringified w' = stringified w @ ms"
    "subseq (map (JSON_text e) (filter is_broadcast ms)) (received c ss)"
    using assms(1) unfolding delivered_all_def by blast
  obtain ss' ms' where 2: "sent w'' = sent w' @ ss'" "stringified w'' = stringified w' @ ms'"
    "subseq (map (JSON_text e) (filter is_broadcast ms')) (received c ss')"
    using assms(2) unfolding delivered_all_def by blast
  have "subseq (map (JSON_text e) (filter is_broadcast (ms @ ms'))) (received c (ss @ ss'))"
    using 1(3) 2(3) by (simp add: list_emb_append_mono)
  then show ?thesis
    unfolding delivered_all_def using 1(1,2) 2(1,2) by (metis append.assoc)
qed

lemma temperature_branch_delivered_all:
  assumes "c \<in> set (receivers w)"
  shows "delivered_all e c w (snd (temperature_branch e m w))"
proof (cases "first_exn [toString_exn (join_limit e) (js_prop m ''deviceId''),
                         toString_exn (join_limit e) (js_prop m ''ambientTemp''),
                         toString_exn (join_limit e) (js_prop m ''objectTemp'')]")
  case (Some x)
  then show ?thesis
    by (simp add: temperature_branch_eq delivered_all_refl)
next
  case None
  note n = this
  show ?thesis
  proof (cases "JSON_stringify e
                  (TemperatureUpdate (stored_reading e m w) (broadcast_time e m w))")
    case None
    then show ?thesis
      using n by (simp add: temperature_branch_eq delivered_all_refl)
  next
    case (Some json)
    have j: "json = JSON_text e (TemperatureUpdate (stored_reading e m w) (broadcast_time e m w))"
      using Some by (rule JSON_stringify_Some)
    have s: "sent (snd (temperature_branch e m w)) = sent w @
               map (\<lambda>c'. (c', JSON_text e
                     (TemperatureUpdate (stored_reading e m w) (broadcast_time e m w))))
                   (receivers w)"
      using n Some[unfolded j] by (simp add: temperature_branch_eq)
    have t: "stringified (snd (temperature_branch e m w)) = stringified w @
               [TemperatureUpdate (stored_reading e m w) (broadcast_time e m w)]"
      using n Some by (simp add: temperature_branch_eq)
    show ?thesis
      by (rule delivered_all_broadcast[OF assms s t])
  qed
qed

lemma handshake_branch_delivered_all:
  "delivered_all e c w (snd (handshake_branch e c0 m w))"
proof (cases "first_exn [toString_exn (join_limit e) (js_prop m ''deviceId''),
                         toString_exn (join_limit e) (js_prop m ''deviceName'')]")
  case (Some x)
  then show ?thesis
    by (simp add: handshake_branch_eq delivered_all_refl)
next
  case None
  have a: "\<not> is_broadcast (HandshakeAck ''Welcome to Temperature Monitor'' (clock e (ticks w)))"
    by simp
  show ?thesis
    using None
    by (auto simp: handshake_branch_eq intro: delivered_all_ack[OF a, where ss = "[]"]
        delivered_all_ack[OF a, where ss = "[(c0, j)]" for j])
qed

lemma delivered_all_console:
  "delivered_all e c w w' \<Longrightarrow> delivered_all e c w (w'\<lparr>console := l\<rparr>)"
  by (simp add: delivered_all_def)

lemma onMessage_delivered_all:
  assumes "c \<in> set (receivers w)"
  shows "delivered_all e c w (onMessage e c0 data w)"
proof -
  have "delivered_all e c w (snd (message_try e c0 data w))"
    using temperature_branch_delivered_all[OF assms, of e] handshake_branch_delivered_all[of e c w c0]
    by (simp add: message_try_def delivered_all_refl split: option.splits)
  then show ?thesis
    by (cases "message_try e c0 data w")
       (auto simp: onMessage_def console_log_def delivered_all_console split: option.splits)
qed

lemma step_open_member:
  assumes "open_member c w" and "keeps_open c ev"
  shows "open_member c (step e w ev) \<and> delivered_all e c w (step e w ev)"
proof (cases ev)
  case (Message c0 data)
  have "c \<in> set (receivers w)"
    using assms(1) by (simp add: open_member_def receivers_def)
  then show ?thesis
    using assms Message onMessage_delivered_all[of c w e c0 data]
    by (simp add: open_member_def)
next
  case (Connection c')
  then show ?thesis
    using assms
    by (auto simp: open_member_def onConnection_def console_log_def Date_now_def Set_add_def
        Let_def delivered_all_def)
next
  case (Close c')
  then show ?thesis
    using assms
    by (auto simp: open_member_def onClose_def console_log_def Set_delete_def Let_def
        delivered_all_def)
next
  case (Error c' msg)
  then show ?thesis
    using assms
    by (auto simp: open_member_def onError_def console_log_def Set_delete_def Let_def
        delivered_all_def)
next
  case (Transport c' rs fl)
  then show ?thesis
    using assms by (auto simp: open_member_def delivered_all_def)
next
  case (PostAlert body)
  have r: "c \<in> set (receivers w)"
    using assms(1) by (simp add: open_member_def receivers_def)
  show ?thesis
  proof (cases "nullish body")
    case True
    then show ?thesis
      using assms PostAlert
      by (simp add: open_member_def api_temperature_alert_def console_log_def delivered_all_def)
  next
    case False
    let ?b = "Alert (js_prop body ''deviceId'') (js_prop body ''alertMessage'') (clock e (ticks w))"
    show ?thesis
    proof (cases "JSON_stringify e ?b")
      case None
      then have "step e w ev = w\<lparr>console := console w @ [LogAlertError RangeError],
                    ticks := Suc (ticks w)\<rparr>"
        using False PostAlert
        by (simp add: api_temperature_alert_def Date_now_def broadcastToClients_eq
            console_log_def)
      then show ?thesis
        using assms(1) by (simp add: open_member_def delivered_all_def)
    next
      case (Some json)
      have j: "json = JSON_text e ?b"
        using Some by (rule JSON_stringify_Some)
      have st: "step e w ev = w\<lparr>sent := sent w @ map (\<lambda>c'. (c', JSON_text e ?b)) (receivers w),
                  pending := pending w @ map Close (failing w),
                  stringified := stringified w @ [?b], ticks := Suc (ticks w)\<rparr>"
        using False PostAlert Some
        by (simp add: api_temperature_alert_def Date_now_def broadcastToClients_eq j)
      have "delivered_all e c w (step e w ev)"
        by (rule delivered_all_broadcast[OF r, where b = ?b]) (simp_all add: st)
      moreover have "open_member c (step e w ev)"
        using assms(1) unfolding st by (simp add: open_member_def)
      ultimately show ?thesis
        by simp
    qed
  qed
qed

lemma run_open_member:
  "open_member c w \<Longrightarrow> list_all (keeps_open c) evs \<Longrightarrow>
     open_member c (run e w evs) \<and> delivered_all e c w (run e w evs)"
proof (induction evs arbitrary: w)
  case Nil
  then show ?case by (simp add: run_def delivered_all_refl)
next
  case (Cons ev evs)
  have s: "open_member c (step e w ev)" "delivered_all e c w (step e w ev)"
    using step_open_member[of c w ev e] Cons.prems by simp_all
  have "open_member c (run e (step e w ev) evs)
        \<and> delivered_all e c (step e w ev) (run e (step e w ev) evs)"
    using Cons.IH[OF s(1)] Cons.prems(2) by simp
  then show ?case
    using s(2) delivered_all_trans by (auto simp: run_def)
qed

text \<open>
  Claim C8, as stated, fails for a member whose socket is no longer open. Client 2 is
  accepted and its socket goes to the closing state; until its close event is
  delivered it is a member of the set, and the alert published in between goes to
  client 1 only.
\<close>

theorem closing_member_misses_broadcast:
  "connectedClients (run scenario_env world0 [Connection 1, Connection 2, Transport 2 2 False,
        PostAlert (JObj [(''deviceId'', JStr ''D1''), (''alertMessage'', JStr ''fever'')])])
       = [1, 2]
   \<and> stringified (run scenario_env world0 [Connection 1, Connection 2, Transport 2 2 False,
        PostAlert (JObj [(''deviceId'', JStr ''D1''), (''alertMessage'', JStr ''fever'')])])
       = [Alert (JStr ''D1'') (JStr ''fever'') 1700000000002]
   \<and> sent (run scenario_env world0 [Connection 1, Connection 2, Transport 2 2 False,
        PostAlert (JObj [(''deviceId'', JStr ''D1''), (''alertMessage'', JStr ''fever'')])])
       = [(1, ''alert'')]
   \<and> received 2 (sent (run scenario_env world0 [Connection 1, Connection 2,
        Transport 2 2 False,
        PostAlert (JObj [(''deviceId'', JStr ''D1''), (''alertMessage'', JStr ''fever'')])]))
       = []"
  by (simp add: eval_defs received_def)

text \<open>
  Claim C8, amended. The connection handler puts the connection into the set, whatever
  the world. A member stays in the set through every run without its own close or
  error event. While its socket stays open, it is sent every broadcast that the server
  serializes during the run, in order. No handler looks at who sent a frame: when the
  log line of a temperature frame of \<open>c\<close> does not throw and the update is serialized,
  the update is among the messages sent to \<open>c\<close> by the handler of that frame.
\<close>

theorem subscriber_from_accept_to_close:
  "c \<in> set (connectedClients (onConnection e c w))
   \<and> (c \<in> set (connectedClients w) \<and> list_all (\<lambda>ev. \<not> removes c ev) evs \<longrightarrow>
        c \<in> set (connectedClients (run e w evs)))
   \<and> (open_member c w \<and> list_all (keeps_open c) evs \<longrightarrow>
        open_member c (run e w evs) \<and> delivered_all e c w (run e w evs))
   \<and> (open_member c w \<and> JSON_parse e data = Some m
        \<and> js_prop m ''type'' = JStr ''temperature'' \<and> \<not> log_throws e m
        \<and> JSON_stringify e (TemperatureUpdate (stored_reading e m w) (broadcast_time e m w))
            = Some json \<longrightarrow>
        (c, json) \<in> set (drop (length (sent w)) (sent (onMessage e c data w))))"
proof (intro conjI impI)
  show "c \<in> set (connectedClients (onConnection e c w))"
    by (simp add: onConnection_def console_log_def Date_now_def Set_add_def Let_def)
  show "c \<in> set (connectedClients (run e w evs))"
    if "c \<in> set (connectedClients w) \<and> list_all (\<lambda>ev. \<not> removes c ev) evs"
    using that run_connectedClients[of evs c w e] by (simp add: list_all_iff)
  show "open_member c (run e w evs)" if "open_member c w \<and> list_all (keeps_open c) evs"
    using that run_open_member[of c w evs e] by simp
  show "delivered_all e c w (run e w evs)" if "open_member c w \<and> list_all (keeps_open c) evs"
    using that run_open_member[of c w evs e] by simp
  show "(c, json) \<in> set (drop (length (sent w)) (sent (onMessage e c data w)))"
    if h: "open_member c w \<and> JSON_parse e data = Some m
        \<and> js_prop m ''type'' = JStr ''temperature'' \<and> \<not> log_throws e m
        \<and> JSON_stringify e (TemperatureUpdate (stored_reading e m w) (broadcast_time e m w))
            = Some json"
  proof -
    have r: "c \<in> set (receivers w)"
      using h by (simp add: open_member_def receivers_def)
    have "sent (onMessage e c data w) = sent w @ map (\<lambda>c'. (c', json)) (receivers w)"
      using h onMessage_temperature_sent[of e data m c w] by simp
    then show ?thesis
      using r by auto
  qed
qed

theorem subscriber_from_accept_to_close_witness:
  \<open>open_member 1 (onConnection scenario_env 1 world0)
   \<and> list_all (keeps_open 1) [Connection 2,
        Message 1 ''{"type":"temperature","deviceId":"D1","ambientTemp":24.5,"objectTemp":32.1}'',
        Close 2, PostAlert (JObj [(''deviceId'', JStr ''D1''), (''alertMessage'', JStr ''fever'')])]
   \<and> connectedClients (run scenario_env (onConnection scenario_env 1 world0) [Connection 2,
        Message 1 ''{"type":"temperature","deviceId":"D1","ambientTemp":24.5,"objectTemp":32.1}'',
        Close 2, PostAlert (JObj [(''deviceId'', JStr ''D1''), (''alertMessage'', JStr ''fever'')])])
       = [1]
   \<and> sent (run scenario_env (onConnection scenario_env 1 world0) [Connection 2,
        Message 1 ''{"type":"temperature","deviceId":"D1","ambientTemp":24.5,"objectTemp":32.1}'',
        Close 2, PostAlert (JObj [(''deviceId'', JStr ''D1''), (''alertMessage'', JStr ''fever'')])])
       = [(1, ''temperature-update''), (2, ''temperature-update''), (1, ''alert'')]
   \<and> delivered_all scenario_env 1 (onConnection scenario_env 1 world0)
        (run scenario_env (onConnection scenario_env 1 world0) [Connection 2,
        Message 1 ''{"type":"temperature","deviceId":"D1","ambientTemp":24.5,"objectTemp":32.1}'',
        Close 2, PostAlert (JObj [(''deviceId'', JStr ''D1''), (''alertMessage'', JStr ''fever'')])])\<close>
proof -
  let ?w = "onConnection scenario_env 1 world0"
  let ?evs = \<open>[Connection 2,
        Message 1 ''{"type":"temperature","deviceId":"D1","ambientTemp":24.5,"objectTemp":32.1}'',
        Close 2, PostAlert (JObj [(''deviceId'', JStr ''D1''), (''alertMessage'', JStr ''fever'')])]\<close>
  have h1: "open_member 1 ?w"
    by (simp add: open_member_def eval_defs)
  have h2: "list_all (keeps_open 1) ?evs"
    by simp
  have c: "connectedClients (run scenario_env ?w ?evs) = [1]"
    by (simp add: eval_defs)
  have s: "sent (run scenario_env ?w ?evs) =
             [(1, ''temperature-update''), (2, ''temperature-update''), (1, ''alert'')]"
    by (simp add: eval_defs)
  note t = subscriber_from_accept_to_close[where c = 1 and e = scenario_env and w = ?w and evs = ?evs]
  have "delivered_all scenario_env 1 ?w (run scenario_env ?w ?evs)"
    using t h1 h2 by blast
  then show ?thesis
    using h1 h2 c s by blast
qed

end
